theory Spec2Isabelle
  imports Main "HOL-Library.Word" "HOL-Library.Monad_Syntax"
begin

section \<open>Pool target operations (src/pool/srv\_target.c)\<close>

text \<open>
  A shallow embedding of the server-side pool target code: the per-stream
  \<open>ds_pool_child\<close> registry, the \<open>ds_pool\<close> cache, the \<open>ds_pool_hdl\<close> table and
  the three RPC handlers with their aggregators.

  Conventions of the embedding.
  \<^item> A function that can hit a failed \<open>D_ASSERT\<close> (the process aborts) or use a freed
    object returns an \<open>option\<close>; \<open>None\<close> is that fatal outcome. Error returns of the
    code stay ordinary values: \<open>rc\<close> is the C \<open>int\<close>, as an \<open>int\<close>.
  \<^item> Reference counts and the failure counts of the replies are 32-bit machine
    integers (\<open>32 word\<close>); \<open>++\<close>, \<open>--\<close> and \<open>+=\<close> wrap, \<open>> 0\<close> on an \<open>int\<close> is the signed
    comparison \<open><s\<close>.
  \<^item> The objects of one kind live in a list. A pointer held inside one function is
    the position of the object in that list; a pointer stored across calls
    (\<open>sph_pool\<close>) is the key of the object in its cache. Freeing removes the object
    from the list.
  \<^item> Handlers run one at a time: the interleaving of execution streams is not part
    of the embedding.
\<close>

subsection \<open>Types and constants of the headers\<close>

type_synonym uuid_t = "128 word"

text \<open>
  Modelled from the spec: the error numbers of \<open>daos_errno.h\<close>, a header that is not
  among the sources. The spec names the errors (\<open>INVALID-INPUT\<close>, \<open>EXISTS\<close> or
  \<open>CONFLICT\<close>, \<open>NOT-FOUND\<close>, \<open>NO-MEMORY\<close>) and not their numbers; the numbers below
  stand for them, and nothing is used of them but that they are not zero.
\<close>

definition DER_INVAL :: int where "DER_INVAL = 1003"
definition DER_EXIST :: int where "DER_EXIST = 1004"
definition DER_NONEXIST :: int where "DER_NONEXIST = 1005"
definition DER_NOMEM :: int where "DER_NOMEM = 1009"

definition ABT_SUCCESS :: int where "ABT_SUCCESS = 0"

definition INT_MAX :: nat where "INT_MAX = 2147483647"

text \<open>\<open>struct ds_pool_child\<close>: \<open>spc_list\<close> tells whether the object is linked into the
  \<open>dt_pool_list\<close> of its stream (\<open>daos_list_empty (&child->spc_list)\<close> is its negation).\<close>

record ds_pool_child =
  spc_list :: bool
  spc_hdl :: "64 word"
  spc_uuid :: uuid_t
  spc_map_version :: "32 word"
  spc_ref :: "32 word"

text \<open>The thread-local storage of one execution stream: its \<open>ds_pool_child\<close> objects in
  the order of \<open>dt_pool_list\<close>, head first. An object unlinked by
  \<open>daos_list_del_init\<close> that is still referenced stays here, with \<open>spc_list\<close> cleared,
  until its last reference is put.\<close>

type_synonym dsm_tls = "ds_pool_child list"

datatype pool_map = Pool_map "8 word list" "32 word"

datatype crt_group = Crt_group uuid_t

text \<open>\<open>struct ds_pool\<close>: \<open>sp_entry\<close> is the reference count \<open>ll_ref\<close> of the embedded cache
  link; \<open>sp_map\<close> and \<open>sp_group\<close> are pointers, \<open>None\<close> for \<open>NULL\<close>. The lock
  \<open>sp_lock\<close> has no field: its creation, locking and release are recorded in the call
  log below.\<close>

record ds_pool =
  sp_entry :: "32 word"
  sp_uuid :: uuid_t
  sp_map :: "pool_map option"
  sp_map_version :: "32 word"
  sp_group :: "crt_group option"

text \<open>\<open>struct ds_pool_hdl\<close>: \<open>sph_entry\<close> tells whether the record is linked into
  \<open>pool_hdl_hash\<close> (\<open>dhash_rec_unlinked\<close> is its negation); \<open>sph_pool\<close> is the pointer to
  the \<open>ds_pool\<close>, kept as the key of that object in \<open>pool_cache\<close> (\<open>None\<close> for \<open>NULL\<close>).\<close>

record ds_pool_hdl =
  sph_entry :: bool
  sph_uuid :: uuid_t
  sph_capas :: "64 word"
  sph_pool :: "uuid_t option"
  sph_ref :: "32 word"

record ds_pool_create_arg =
  pca_map_buf :: "8 word list option"
  pca_map_version :: "32 word"
  pca_create_group :: bool

text \<open>The calls to the collaborators that acquire or release a resource of a pool,
  and the store to \<open>sp_map_version\<close>, in program order.\<close>

datatype call =
    D_ALLOC_pool uuid_t
  | ABT_rwlock_create uuid_t
  | Pool_map_create uuid_t
  | Collective_child_add uuid_t
  | Ds_pool_group_create uuid_t
  | Ds_pool_group_destroy uuid_t
  | Collective_child_delete uuid_t
  | Pool_map_destroy uuid_t
  | ABT_rwlock_free uuid_t
  | D_FREE_pool uuid_t
  | Collective_update_map_version uuid_t "32 word"
  | ABT_rwlock_wrlock uuid_t
  | Store_sp_map_version uuid_t "32 word"
  | ABT_rwlock_unlock uuid_t

text \<open>The state of the module: the thread-local storage of every execution stream
  (the position is the stream's \<open>dmi_tid\<close>), the objects of \<open>pool_cache\<close>, the
  \<open>ds_pool_hdl\<close> objects (those with \<open>sph_entry\<close> set form \<open>pool_hdl_hash\<close>), and the
  call log.\<close>

record srv_state =
  xstreams :: "dsm_tls list"
  pool_cache :: "ds_pool list"
  pool_hdl_hash :: "ds_pool_hdl list"
  calls :: "call list"

text \<open>What the collaborators answer during one request: whether an allocation
  fails, and the return codes of the storage engine, the path resolver, the lock
  library, the map codec and the group service. \<open>nomem_child\<close>, \<open>tgt_file_rc\<close>,
  \<open>vos_pool_open_rc\<close> and \<open>vos_pool_open_hdl\<close> are per execution stream.
  \<open>dss_abterr2der\<close> is the function of that name, whose definition is not among the
  sources.\<close>

record env =
  nomem_hdl :: bool
  nomem_pool :: bool
  nomem_child :: "nat \<Rightarrow> bool"
  tgt_file_rc :: "nat \<Rightarrow> int"
  vos_pool_open_rc :: "nat \<Rightarrow> int"
  vos_pool_open_hdl :: "nat \<Rightarrow> 64 word"
  rwlock_create_rc :: int
  dss_abterr2der :: "int \<Rightarrow> int"
  pool_map_create_rc :: int
  group_create_rc :: int

definition log_call :: "call \<Rightarrow> srv_state \<Rightarrow> srv_state" where
  "log_call c s = s\<lparr>calls := calls s @ [c]\<rparr>"

subsection \<open>ds\_pool\_child\<close>

text \<open>The position of the first element of a list that satisfies a predicate: the walk
  of \<open>daos_list_for_each_entry\<close> in \<open>ds_pool_child_lookup\<close>, and the key comparison of
  the cache and of the hash table.\<close>

fun first_index :: "('a \<Rightarrow> bool) \<Rightarrow> 'a list \<Rightarrow> nat option" where
  "first_index P [] = None"
| "first_index P (x # xs) = (if P x then Some 0 else map_option Suc (first_index P xs))"

text \<open>Freeing the object at a position.\<close>

definition free_at :: "nat \<Rightarrow> 'a list \<Rightarrow> 'a list" where
  "free_at p xs = take p xs @ drop (Suc p) xs"

definition child_index :: "uuid_t \<Rightarrow> dsm_tls \<Rightarrow> nat option" where
  "child_index uuid tls = first_index (\<lambda>child. spc_list child \<and> spc_uuid child = uuid) tls"

definition ds_pool_child_lookup :: "uuid_t \<Rightarrow> dsm_tls \<Rightarrow> nat option \<times> dsm_tls" where
  "ds_pool_child_lookup uuid tls =
     (case child_index uuid tls of
        None \<Rightarrow> (None, tls)
      | Some p \<Rightarrow> (Some p, tls[p := (tls ! p)\<lparr>spc_ref := spc_ref (tls ! p) + 1\<rparr>]))"

text \<open>\<open>ds_pool_child_put\<close>. A pointer that is not an object of the stream is a use after
  free; the two assertions abort. At zero the storage handle is closed and the object
  freed.\<close>

definition ds_pool_child_put :: "nat \<Rightarrow> dsm_tls \<Rightarrow> dsm_tls option" where
  "ds_pool_child_put p tls =
     (if length tls \<le> p then None
      else if \<not> 0 <s spc_ref (tls ! p) then None
      else let child = (tls ! p)\<lparr>spc_ref := spc_ref (tls ! p) - 1\<rparr> in
        if spc_ref child = 0 then
          (if spc_list child then None else Some (free_at p tls))
        else Some (tls[p := child]))"

record pool_child_lookup_arg =
  pla_uuid :: uuid_t
  pla_map_version :: "32 word"

definition pool_child_add_one ::
  "env \<Rightarrow> pool_child_lookup_arg \<Rightarrow> nat \<Rightarrow> dsm_tls \<Rightarrow> (int \<times> dsm_tls) option" where
  "pool_child_add_one e arg tid tls =
     (case ds_pool_child_lookup (pla_uuid arg) tls of
        (Some p, tls1) \<Rightarrow> do { tls2 \<leftarrow> ds_pool_child_put p tls1; Some (0, tls2) }
      | (None, tls1) \<Rightarrow>
          if nomem_child e tid then Some (- DER_NOMEM, tls1)
          else if tgt_file_rc e tid \<noteq> 0 then Some (tgt_file_rc e tid, tls1)
          else if vos_pool_open_rc e tid \<noteq> 0 then Some (vos_pool_open_rc e tid, tls1)
          else Some (0, \<lparr>spc_list = True, spc_hdl = vos_pool_open_hdl e tid,
                          spc_uuid = pla_uuid arg, spc_map_version = pla_map_version arg,
                          spc_ref = 1\<rparr> # tls1))"

text \<open>\<open>pool_child_delete_one\<close>: the second put acts on a freed object when the first one
  dropped the last reference.\<close>

definition pool_child_delete_one :: "uuid_t \<Rightarrow> nat \<Rightarrow> dsm_tls \<Rightarrow> (int \<times> dsm_tls) option" where
  "pool_child_delete_one uuid tid tls =
     (case ds_pool_child_lookup uuid tls of
        (None, tls1) \<Rightarrow> Some (0, tls1)
      | (Some p, tls1) \<Rightarrow>
          do {
            let tls2 = tls1[p := (tls1 ! p)\<lparr>spc_list := False\<rparr>];
            tls3 \<leftarrow> ds_pool_child_put p tls2;
            tls4 \<leftarrow> (if length tls3 < length tls2 then None else ds_pool_child_put p tls3);
            Some (0, tls4)
          })"

subsection \<open>The collective executor\<close>

text \<open>Modelled from the spec: the run of \<open>dss_collective\<close>, which is not among the
  sources, over the streams from number \<open>tid\<close> on. The operation is invoked once on
  every stream, in the order of the stream numbers here; an invocation that aborts,
  aborts the whole; the result is 0 only if every invocation returned 0, and the
  first non-zero code otherwise (every caller asserts that the result is 0).\<close>

fun collective_from ::
  "(nat \<Rightarrow> dsm_tls \<Rightarrow> (int \<times> dsm_tls) option) \<Rightarrow> nat \<Rightarrow> dsm_tls list \<Rightarrow>
     (int \<times> dsm_tls list) option" where
  "collective_from f tid [] = Some (0, [])"
| "collective_from f tid (tls # rest) =
     (case f tid tls of
        None \<Rightarrow> None
      | Some (rc, tls') \<Rightarrow>
          (case collective_from f (Suc tid) rest of
             None \<Rightarrow> None
           | Some (rc', rest') \<Rightarrow> Some (if rc \<noteq> 0 then rc else rc', tls' # rest')))"

text \<open>Modelled from the spec: \<open>dss_collective\<close>, not among the sources, runs the
  operation once on every execution stream of the node and returns when all have
  completed.\<close>

definition dss_collective ::
  "(nat \<Rightarrow> dsm_tls \<Rightarrow> (int \<times> dsm_tls) option) \<Rightarrow> srv_state \<Rightarrow> (int \<times> srv_state) option" where
  "dss_collective f s =
     (case collective_from f 0 (xstreams s) of
        None \<Rightarrow> None
      | Some (rc, tlss) \<Rightarrow> Some (rc, s\<lparr>xstreams := tlss\<rparr>))"

subsection \<open>ds\_pool\<close>

definition pool_cmp_keys :: "uuid_t \<Rightarrow> ds_pool \<Rightarrow> bool" where
  "pool_cmp_keys key pool = (key = sp_uuid pool)"

text \<open>The error labels of \<open>pool_alloc_ref\<close>, each falling through to the next.\<close>

definition err_pool :: "uuid_t \<Rightarrow> srv_state \<Rightarrow> srv_state" where
  "err_pool key s = log_call (D_FREE_pool key) s"

definition err_lock :: "uuid_t \<Rightarrow> srv_state \<Rightarrow> srv_state" where
  "err_lock key s = err_pool key (log_call (ABT_rwlock_free key) s)"

definition err_collective :: "uuid_t \<Rightarrow> ds_pool_create_arg \<Rightarrow> srv_state \<Rightarrow> srv_state option" where
  "err_collective key arg s =
     (case dss_collective (pool_child_delete_one key) s of
        None \<Rightarrow> None
      | Some (rc_tmp, s1) \<Rightarrow>
          if rc_tmp \<noteq> 0 then None
          else let s2 = log_call (Collective_child_delete key) s1;
                   s3 = (if pca_map_buf arg \<noteq> None then log_call (Pool_map_destroy key) s2
                         else s2)
               in Some (err_lock key s3))"

text \<open>\<open>pool_alloc_ref\<close> returns the code and, through \<open>link\<close>, the new object.
  \<open>D_ALLOC_PTR\<close> returns zeroed memory.\<close>

definition pool_alloc_ref ::
  "env \<Rightarrow> uuid_t \<Rightarrow> ds_pool_create_arg option \<Rightarrow> srv_state \<Rightarrow>
     (int \<times> ds_pool option \<times> srv_state) option" where
  "pool_alloc_ref e key varg s =
     (case varg of
        None \<Rightarrow> Some (- DER_NONEXIST, None, s)
      | Some arg \<Rightarrow>
          if nomem_pool e then Some (- DER_NOMEM, None, s)
          else let s1 = log_call (D_ALLOC_pool key) s in
          if rwlock_create_rc e \<noteq> ABT_SUCCESS
          then Some (dss_abterr2der e (rwlock_create_rc e), None, err_pool key s1)
          else let s2 = log_call (ABT_rwlock_create key) s1;
                   pool = \<lparr>sp_entry = 0, sp_uuid = key, sp_map = None,
                           sp_map_version = pca_map_version arg, sp_group = None\<rparr> in
          if pca_map_buf arg \<noteq> None \<and> pool_map_create_rc e \<noteq> 0
          then Some (pool_map_create_rc e, None, err_lock key s2)
          else let pool = (case pca_map_buf arg of
                             None \<Rightarrow> pool
                           | Some buf \<Rightarrow> pool\<lparr>sp_map := Some (Pool_map buf (pca_map_version arg))\<rparr>);
                   s3 = (if pca_map_buf arg \<noteq> None then log_call (Pool_map_create key) s2
                         else s2);
                   collective_arg = \<lparr>pla_uuid = key, pla_map_version = pca_map_version arg\<rparr> in
          (case dss_collective (pool_child_add_one e collective_arg) s3 of
             None \<Rightarrow> None
           | Some (rc, s4) \<Rightarrow>
               if rc \<noteq> 0 then None
               else let s5 = log_call (Collective_child_add key) s4 in
               if pca_create_group arg then
                 (if sp_map pool = None then None
                  else if group_create_rc e \<noteq> 0
                  then map_option (\<lambda>s6. (group_create_rc e, None, s6)) (err_collective key arg s5)
                  else Some (0, Some (pool\<lparr>sp_group := Some (Crt_group key)\<rparr>),
                             log_call (Ds_pool_group_create key) s5))
               else Some (0, Some pool, s5)))"

definition pool_free_ref :: "ds_pool \<Rightarrow> srv_state \<Rightarrow> srv_state option" where
  "pool_free_ref pool s =
     (let s1 = (if sp_group pool \<noteq> None then log_call (Ds_pool_group_destroy (sp_uuid pool)) s
                else s) in
      case dss_collective (pool_child_delete_one (sp_uuid pool)) s1 of
        None \<Rightarrow> None
      | Some (rc, s2) \<Rightarrow>
          if rc \<noteq> 0 then None
          else let s3 = log_call (Collective_child_delete (sp_uuid pool)) s2;
                   s4 = (if sp_map pool \<noteq> None then log_call (Pool_map_destroy (sp_uuid pool)) s3
                         else s3)
               in Some (log_call (D_FREE_pool (sp_uuid pool))
                         (log_call (ABT_rwlock_free (sp_uuid pool)) s4)))"

text \<open>Modelled from the spec: \<open>daos_lru_ref_hold\<close> is not among the sources. A hit
  (decided by \<open>lop_cmp_keys\<close>) returns a new reference to the existing object and
  ignores the creation argument; a miss builds the object with \<open>lop_alloc_ref\<close> and
  inserts it with one reference; the cache never holds two objects for one key. The
  link returned is the key of the object.\<close>

definition daos_lru_ref_hold ::
  "env \<Rightarrow> uuid_t \<Rightarrow> ds_pool_create_arg option \<Rightarrow> srv_state \<Rightarrow>
     (int \<times> uuid_t option \<times> srv_state) option" where
  "daos_lru_ref_hold e key arg s =
     (case first_index (pool_cmp_keys key) (pool_cache s) of
        Some p \<Rightarrow>
          Some (0, Some key,
                s\<lparr>pool_cache := (pool_cache s)
                     [p := (pool_cache s ! p)\<lparr>sp_entry := sp_entry (pool_cache s ! p) + 1\<rparr>]\<rparr>)
      | None \<Rightarrow>
          (case pool_alloc_ref e key arg s of
             None \<Rightarrow> None
           | Some (rc, link, s1) \<Rightarrow>
               if rc \<noteq> 0 then Some (rc, None, s1)
               else (case link of
                       None \<Rightarrow> None
                     | Some pool \<Rightarrow>
                         Some (0, Some key,
                               s1\<lparr>pool_cache := pool\<lparr>sp_entry := 1\<rparr> # pool_cache s1\<rparr>))))"

text \<open>Modelled from the spec: \<open>daos_lru_ref_release\<close> is not among the sources. It
  drops one reference; at zero the object leaves the cache and is destroyed with
  \<open>lop_free_ref\<close>. There is no eviction by size.\<close>

definition daos_lru_ref_release :: "uuid_t \<Rightarrow> srv_state \<Rightarrow> srv_state option" where
  "daos_lru_ref_release link s =
     (case first_index (pool_cmp_keys link) (pool_cache s) of
        None \<Rightarrow> None
      | Some p \<Rightarrow>
          let pool = (pool_cache s ! p)\<lparr>sp_entry := sp_entry (pool_cache s ! p) - 1\<rparr> in
          if sp_entry pool = 0
          then pool_free_ref pool (s\<lparr>pool_cache := free_at p (pool_cache s)\<rparr>)
          else Some (s\<lparr>pool_cache := (pool_cache s)[p := pool]\<rparr>))"

definition ds_pool_lookup_create ::
  "env \<Rightarrow> uuid_t \<Rightarrow> ds_pool_create_arg option \<Rightarrow> srv_state \<Rightarrow>
     (int \<times> uuid_t option \<times> srv_state) option" where
  "ds_pool_lookup_create e uuid arg s =
     (if (case arg of
            None \<Rightarrow> True
          | Some a \<Rightarrow> \<not> pca_create_group a \<or> pca_map_buf a \<noteq> None)
      then daos_lru_ref_hold e uuid arg s
      else None)"

definition ds_pool_lookup :: "env \<Rightarrow> uuid_t \<Rightarrow> srv_state \<Rightarrow> (uuid_t option \<times> srv_state) option" where
  "ds_pool_lookup e uuid s =
     (case ds_pool_lookup_create e uuid None s of
        None \<Rightarrow> None
      | Some (rc, pool, s1) \<Rightarrow> Some (if rc \<noteq> 0 then None else pool, s1))"

text \<open>\<open>ds_pool_put\<close>; putting \<open>NULL\<close> dereferences a null pointer.\<close>

definition ds_pool_put :: "uuid_t option \<Rightarrow> srv_state \<Rightarrow> srv_state option" where
  "ds_pool_put pool s =
     (case pool of None \<Rightarrow> None | Some link \<Rightarrow> daos_lru_ref_release link s)"

subsection \<open>ds\_pool\_hdl\<close>

definition pool_hdl_key_cmp :: "ds_pool_hdl \<Rightarrow> uuid_t \<Rightarrow> bool" where
  "pool_hdl_key_cmp hdl key = (sph_uuid hdl = key)"

definition pool_hdl_rec_addref :: "nat \<Rightarrow> ds_pool_hdl list \<Rightarrow> ds_pool_hdl list" where
  "pool_hdl_rec_addref p hdls = hdls[p := (hdls ! p)\<lparr>sph_ref := sph_ref (hdls ! p) + 1\<rparr>]"

definition pool_hdl_rec_decref :: "nat \<Rightarrow> ds_pool_hdl list \<Rightarrow> (bool \<times> ds_pool_hdl list) option" where
  "pool_hdl_rec_decref p hdls =
     (if length hdls \<le> p then None
      else if \<not> 0 <s sph_ref (hdls ! p) then None
      else let hdl = (hdls ! p)\<lparr>sph_ref := sph_ref (hdls ! p) - 1\<rparr>
           in Some (sph_ref hdl = 0, hdls[p := hdl]))"

definition pool_hdl_rec_free :: "nat \<Rightarrow> srv_state \<Rightarrow> srv_state option" where
  "pool_hdl_rec_free p s =
     (if length (pool_hdl_hash s) \<le> p then None
      else let hdl = pool_hdl_hash s ! p in
        if sph_entry hdl then None
        else if sph_ref hdl \<noteq> 0 then None
        else (case ds_pool_put (sph_pool hdl) s of
                None \<Rightarrow> None
              | Some s1 \<Rightarrow> Some (s1\<lparr>pool_hdl_hash := free_at p (pool_hdl_hash s1)\<rparr>)))"

text \<open>The hash table functions \<open>dhash_rec_find\<close>, \<open>dhash_rec_insert\<close>,
  \<open>dhash_rec_delete\<close> and \<open>dhash_rec_decref\<close> are not among the sources. They call back
  into \<open>pool_hdl_key_cmp\<close>, \<open>pool_hdl_rec_addref\<close>, \<open>pool_hdl_rec_decref\<close> and
  \<open>pool_hdl_rec_free\<close> above.\<close>

text \<open>Modelled from the spec: the walk of the table for a key, which is not among the
  sources: the position of the first linked record that \<open>hop_key_cmp\<close> accepts.\<close>

definition hdl_index :: "uuid_t \<Rightarrow> srv_state \<Rightarrow> nat option" where
  "hdl_index key s =
     first_index (\<lambda>hdl. sph_entry hdl \<and> pool_hdl_key_cmp hdl key) (pool_hdl_hash s)"

text \<open>Modelled from the spec: \<open>dhash_rec_find\<close> is not among the sources. It
  increments the reference count on a hit.\<close>

definition dhash_rec_find :: "uuid_t \<Rightarrow> srv_state \<Rightarrow> nat option \<times> srv_state" where
  "dhash_rec_find key s =
     (case hdl_index key s of
        None \<Rightarrow> (None, s)
      | Some p \<Rightarrow> (Some p, s\<lparr>pool_hdl_hash := pool_hdl_rec_addref p (pool_hdl_hash s)\<rparr>))"

text \<open>Modelled from the spec: \<open>dhash_rec_decref\<close> is not among the sources. It
  decrements the reference count; at zero the record is freed.\<close>

definition dhash_rec_decref :: "nat \<Rightarrow> srv_state \<Rightarrow> srv_state option" where
  "dhash_rec_decref p s =
     (case pool_hdl_rec_decref p (pool_hdl_hash s) of
        None \<Rightarrow> None
      | Some (zombie, hdls) \<Rightarrow>
          if zombie then pool_hdl_rec_free p (s\<lparr>pool_hdl_hash := hdls\<rparr>)
          else Some (s\<lparr>pool_hdl_hash := hdls\<rparr>))"

text \<open>Modelled from the spec: \<open>dhash_rec_insert\<close> is not among the sources. An
  exclusive insert fails with \<open>-DER_EXIST\<close> if the identifier is present; otherwise the
  record is linked and the table takes its own reference.\<close>

definition dhash_rec_insert :: "uuid_t \<Rightarrow> nat \<Rightarrow> bool \<Rightarrow> srv_state \<Rightarrow> int \<times> srv_state" where
  "dhash_rec_insert key p exclusive s =
     (if exclusive \<and> hdl_index key s \<noteq> None then (- DER_EXIST, s)
      else (0, s\<lparr>pool_hdl_hash :=
                   pool_hdl_rec_addref p
                     ((pool_hdl_hash s)[p := (pool_hdl_hash s ! p)\<lparr>sph_entry := True\<rparr>])\<rparr>))"

text \<open>Modelled from the spec: \<open>dhash_rec_delete\<close> is not among the sources. It
  unlinks the record of the key, then drops the table's own reference; it tells
  whether the key was present.\<close>

definition dhash_rec_delete :: "uuid_t \<Rightarrow> srv_state \<Rightarrow> (bool \<times> srv_state) option" where
  "dhash_rec_delete key s =
     (case hdl_index key s of
        None \<Rightarrow> Some (False, s)
      | Some p \<Rightarrow>
          map_option (Pair True)
            (dhash_rec_decref p
               (s\<lparr>pool_hdl_hash := (pool_hdl_hash s)[p := (pool_hdl_hash s ! p)\<lparr>sph_entry := False\<rparr>]\<rparr>)))"

definition pool_hdl_add :: "nat \<Rightarrow> srv_state \<Rightarrow> int \<times> srv_state" where
  "pool_hdl_add hdl s = dhash_rec_insert (sph_uuid (pool_hdl_hash s ! hdl)) hdl True s"

definition pool_hdl_delete :: "nat \<Rightarrow> srv_state \<Rightarrow> srv_state option" where
  "pool_hdl_delete hdl s =
     (case dhash_rec_delete (sph_uuid (pool_hdl_hash s ! hdl)) s of
        None \<Rightarrow> None
      | Some (deleted, s1) \<Rightarrow> if deleted then Some s1 else None)"

definition ds_pool_hdl_lookup :: "uuid_t \<Rightarrow> srv_state \<Rightarrow> nat option \<times> srv_state" where
  "ds_pool_hdl_lookup uuid s = dhash_rec_find uuid s"

definition ds_pool_hdl_put :: "nat \<Rightarrow> srv_state \<Rightarrow> srv_state option" where
  "ds_pool_hdl_put hdl s = dhash_rec_decref hdl s"

subsection \<open>The RPC handlers and their aggregators\<close>

text \<open>The request and reply bodies of \<open>rpc.h\<close>. A handler returns the reply it sends
  together with the internal code \<open>rc\<close> that it logs beside the reply.\<close>

record pool_tgt_connect_in =
  tci_uuid :: uuid_t
  tci_hdl :: uuid_t
  tci_capas :: "64 word"
  tci_map_version :: "32 word"

record pool_tgt_connect_out =
  tco_rc :: "32 word"

text \<open>\<open>daos_array\<close>: the declared count and the pointer to the array.\<close>

record daos_array =
  da_count :: "64 word"
  da_arrays :: "uuid_t list option"

record pool_tgt_disconnect_in =
  tdi_uuid :: uuid_t
  tdi_hdls :: daos_array

record pool_tgt_disconnect_out =
  tdo_rc :: "32 word"

record pool_tgt_update_map_in =
  tui_uuid :: uuid_t
  tui_map_version :: "32 word"

record pool_tgt_update_map_out =
  tuo_rc :: "32 word"

text \<open>\<open>D_ALLOC_PTR (hdl)\<close>: a zeroed, unlinked record.\<close>

definition hdl_zeroed :: ds_pool_hdl where
  "hdl_zeroed = \<lparr>sph_entry = False, sph_uuid = 0, sph_capas = 0, sph_pool = None, sph_ref = 0\<rparr>"

definition ds_pool_tgt_connect_handler ::
  "env \<Rightarrow> pool_tgt_connect_in \<Rightarrow> srv_state \<Rightarrow> (pool_tgt_connect_out \<times> int \<times> srv_state) option" where
  "ds_pool_tgt_connect_handler e inp s =
     (let out = (\<lambda>rc. \<lparr>tco_rc = (if rc = 0 then 0 else 1)\<rparr>) in
      case ds_pool_hdl_lookup (tci_hdl inp) s of
        (Some hdl, s1) \<Rightarrow>
          (let rc = (if sph_capas (pool_hdl_hash s1 ! hdl) = tci_capas inp then 0 else - DER_EXIST)
           in (case ds_pool_hdl_put hdl s1 of
                 None \<Rightarrow> None
               | Some s2 \<Rightarrow> Some (out rc, rc, s2)))
      | (None, s1) \<Rightarrow>
          if nomem_hdl e then Some (out (- DER_NOMEM), - DER_NOMEM, s1)
          else let s2 = s1\<lparr>pool_hdl_hash := hdl_zeroed # pool_hdl_hash s1\<rparr>;
                   hdl = 0;
                   arg = \<lparr>pca_map_buf = None, pca_map_version = tci_map_version inp,
                          pca_create_group = False\<rparr>
               in (case ds_pool_lookup_create e (tci_uuid inp) (Some arg) s2 of
                     None \<Rightarrow> None
                   | Some (rc, pool, s3) \<Rightarrow>
                       if rc \<noteq> 0
                       then Some (out rc, rc, s3\<lparr>pool_hdl_hash := free_at hdl (pool_hdl_hash s3)\<rparr>)
                       else let s4 = s3\<lparr>pool_hdl_hash := (pool_hdl_hash s3)
                                       [hdl := (pool_hdl_hash s3 ! hdl)
                                          \<lparr>sph_uuid := tci_hdl inp, sph_capas := tci_capas inp,
                                           sph_pool := pool\<rparr>]\<rparr>
                            in (case pool_hdl_add hdl s4 of
                                  (rc, s5) \<Rightarrow>
                                    if rc \<noteq> 0
                                    then (case ds_pool_put pool s5 of
                                            None \<Rightarrow> None
                                          | Some s6 \<Rightarrow> Some (out rc, rc, s6))
                                    else Some (out rc, rc, s5))))"

definition ds_pool_tgt_connect_aggregator ::
  "pool_tgt_connect_out \<Rightarrow> pool_tgt_connect_out \<Rightarrow> pool_tgt_connect_out" where
  "ds_pool_tgt_connect_aggregator out_source out_result =
     out_result\<lparr>tco_rc := tco_rc out_result + tco_rc out_source\<rparr>"

text \<open>The loop of the disconnect handler. The index \<open>i\<close> is an \<open>int\<close>: incrementing it
  at \<open>INT_MAX\<close> is undefined, as is reading past the end of the array.\<close>

function disconnect_loop :: "uuid_t list \<Rightarrow> nat \<Rightarrow> nat \<Rightarrow> srv_state \<Rightarrow> srv_state option" where
  "disconnect_loop hdl_uuids count i s =
     (if i < count then
        (if length hdl_uuids \<le> i then None
         else case ds_pool_hdl_lookup (hdl_uuids ! i) s of
                (None, s1) \<Rightarrow>
                  if i = INT_MAX then None
                  else disconnect_loop hdl_uuids count (Suc i) s1
              | (Some hdl, s1) \<Rightarrow>
                  (case pool_hdl_delete hdl s1 of
                     None \<Rightarrow> None
                   | Some s2 \<Rightarrow>
                       if length (pool_hdl_hash s2) < length (pool_hdl_hash s1) then None
                       else (case ds_pool_hdl_put hdl s2 of
                               None \<Rightarrow> None
                             | Some s3 \<Rightarrow>
                                 if i = INT_MAX then None
                                 else disconnect_loop hdl_uuids count (Suc i) s3)))
      else Some s)"
  by pat_completeness auto
termination
  by (relation "measure (\<lambda>(hdl_uuids, count, i, s). count - i)") auto

declare disconnect_loop.simps [simp del]

definition ds_pool_tgt_disconnect_handler ::
  "pool_tgt_disconnect_in \<Rightarrow> srv_state \<Rightarrow> (pool_tgt_disconnect_out \<times> int \<times> srv_state) option" where
  "ds_pool_tgt_disconnect_handler inp s =
     (let out = (\<lambda>rc. \<lparr>tdo_rc = (if rc = 0 then 0 else 1)\<rparr>) in
      if da_count (tdi_hdls inp) = 0 then Some (out 0, 0, s)
      else case da_arrays (tdi_hdls inp) of
             None \<Rightarrow> Some (out (- DER_INVAL), - DER_INVAL, s)
           | Some hdl_uuids \<Rightarrow>
               (case disconnect_loop hdl_uuids (unat (da_count (tdi_hdls inp))) 0 s of
                  None \<Rightarrow> None
                | Some s1 \<Rightarrow> Some (out 0, 0, s1)))"

definition ds_pool_tgt_disconnect_aggregator ::
  "pool_tgt_disconnect_out \<Rightarrow> pool_tgt_disconnect_out \<Rightarrow> pool_tgt_disconnect_out" where
  "ds_pool_tgt_disconnect_aggregator out_source out_result =
     out_result\<lparr>tdo_rc := tdo_rc out_result + tdo_rc out_source\<rparr>"

definition update_child_map_version ::
  "pool_tgt_update_map_in \<Rightarrow> nat \<Rightarrow> dsm_tls \<Rightarrow> (int \<times> dsm_tls) option" where
  "update_child_map_version inp tid tls =
     (case ds_pool_child_lookup (tui_uuid inp) tls of
        (None, tls1) \<Rightarrow> Some (- DER_NONEXIST, tls1)
      | (Some child, tls1) \<Rightarrow>
          (case ds_pool_child_put child
                  (tls1[child := (tls1 ! child)\<lparr>spc_map_version := tui_map_version inp\<rparr>]) of
             None \<Rightarrow> None
           | Some tls2 \<Rightarrow> Some (0, tls2)))"

text \<open>The store \<open>pool->sp_map_version = v\<close> through the pointer \<open>pool\<close>.\<close>

definition store_sp_map_version :: "uuid_t \<Rightarrow> 32 word \<Rightarrow> srv_state \<Rightarrow> srv_state option" where
  "store_sp_map_version pool v s =
     (case first_index (pool_cmp_keys pool) (pool_cache s) of
        None \<Rightarrow> None
      | Some p \<Rightarrow>
          Some (log_call (Store_sp_map_version pool v)
                  (s\<lparr>pool_cache := (pool_cache s)[p := (pool_cache s ! p)\<lparr>sp_map_version := v\<rparr>]\<rparr>)))"

definition ds_pool_tgt_update_map_handler ::
  "env \<Rightarrow> pool_tgt_update_map_in \<Rightarrow> srv_state \<Rightarrow>
     (pool_tgt_update_map_out \<times> int \<times> srv_state) option" where
  "ds_pool_tgt_update_map_handler e inp s =
     (let out = (\<lambda>rc. \<lparr>tuo_rc = (if rc = 0 then 0 else 1)\<rparr>) in
      case ds_pool_lookup e (tui_uuid inp) s of
        None \<Rightarrow> None
      | Some (None, s1) \<Rightarrow> Some (out (- DER_NONEXIST), - DER_NONEXIST, s1)
      | Some (Some pool, s1) \<Rightarrow>
          (case dss_collective (update_child_map_version inp) s1 of
             None \<Rightarrow> None
           | Some (rc, s2) \<Rightarrow>
               if rc \<noteq> 0 then None
               else let s3 = log_call (Collective_update_map_version (tui_uuid inp)
                                         (tui_map_version inp)) s2;
                        s4 = log_call (ABT_rwlock_wrlock pool) s3
                    in (case store_sp_map_version pool (tui_map_version inp) s4 of
                          None \<Rightarrow> None
                        | Some s5 \<Rightarrow>
                            (case ds_pool_put (Some pool) (log_call (ABT_rwlock_unlock pool) s5) of
                               None \<Rightarrow> None
                             | Some s6 \<Rightarrow> Some (out rc, rc, s6)))))"

definition ds_pool_tgt_update_map_aggregator ::
  "pool_tgt_update_map_out \<Rightarrow> pool_tgt_update_map_out \<Rightarrow> pool_tgt_update_map_out" where
  "ds_pool_tgt_update_map_aggregator out_source out_result =
     out_result\<lparr>tuo_rc := tuo_rc out_result + tuo_rc out_source\<rparr>"

subsection \<open>Example requests and states\<close>

text \<open>A node with two execution streams on which every collaborator succeeds, the
  state before any pool is opened, and the state after handle 1 has been connected to
  pool 7 with capability mask 1 at map version 3.\<close>

definition env_ok :: env where
  "env_ok = \<lparr>nomem_hdl = False, nomem_pool = False, nomem_child = (\<lambda>tid. False),
              tgt_file_rc = (\<lambda>tid. 0), vos_pool_open_rc = (\<lambda>tid. 0),
              vos_pool_open_hdl = (\<lambda>tid. 100 + of_nat tid),
              rwlock_create_rc = 0, dss_abterr2der = (\<lambda>rc. if rc = 0 then 0 else - DER_NOMEM),
              pool_map_create_rc = 0, group_create_rc = 0\<rparr>"

definition st_init :: srv_state where
  "st_init = \<lparr>xstreams = [[], []], pool_cache = [], pool_hdl_hash = [], calls = []\<rparr>"

definition connect_7_1 :: pool_tgt_connect_in where
  "connect_7_1 = \<lparr>tci_uuid = 7, tci_hdl = 1, tci_capas = 1, tci_map_version = 3\<rparr>"

definition st_connected :: srv_state where
  "st_connected =
     \<lparr>xstreams =
        [[\<lparr>spc_list = True, spc_hdl = 100, spc_uuid = 7, spc_map_version = 3, spc_ref = 1\<rparr>],
         [\<lparr>spc_list = True, spc_hdl = 101, spc_uuid = 7, spc_map_version = 3, spc_ref = 1\<rparr>]],
      pool_cache =
        [\<lparr>sp_entry = 1, sp_uuid = 7, sp_map = None, sp_map_version = 3, sp_group = None\<rparr>],
      pool_hdl_hash =
        [\<lparr>sph_entry = True, sph_uuid = 1, sph_capas = 1, sph_pool = Some 7, sph_ref = 1\<rparr>],
      calls = [D_ALLOC_pool 7, ABT_rwlock_create 7, Collective_child_add 7]\<rparr>"

definition update_7_9 :: pool_tgt_update_map_in where
  "update_7_9 = \<lparr>tui_uuid = 7, tui_map_version = 9\<rparr>"

text \<open>The state after \<open>update_7_9\<close> has been handled in \<open>st_connected\<close>.\<close>

definition st_updated :: srv_state where
  "st_updated =
     \<lparr>xstreams =
        [[\<lparr>spc_list = True, spc_hdl = 100, spc_uuid = 7, spc_map_version = 9, spc_ref = 1\<rparr>],
         [\<lparr>spc_list = True, spc_hdl = 101, spc_uuid = 7, spc_map_version = 9, spc_ref = 1\<rparr>]],
      pool_cache =
        [\<lparr>sp_entry = 1, sp_uuid = 7, sp_map = None, sp_map_version = 9, sp_group = None\<rparr>],
      pool_hdl_hash =
        [\<lparr>sph_entry = True, sph_uuid = 1, sph_capas = 1, sph_pool = Some 7, sph_ref = 1\<rparr>],
      calls = [D_ALLOC_pool 7, ABT_rwlock_create 7, Collective_child_add 7,
               Collective_update_map_version 7 9, ABT_rwlock_wrlock 7,
               Store_sp_map_version 7 9, ABT_rwlock_unlock 7]\<rparr>"

text \<open>A disconnect request for the handles 5, which is not connected, and 1; and the
  state after it has been handled in \<open>st_connected\<close>: the last handle of pool 7 is gone,
  and so is the pool.\<close>

definition disconnect_5_1 :: pool_tgt_disconnect_in where
  "disconnect_5_1 = \<lparr>tdi_uuid = 7, tdi_hdls = \<lparr>da_count = 2, da_arrays = Some [5, 1]\<rparr>\<rparr>"

definition st_disconnected :: srv_state where
  "st_disconnected =
     \<lparr>xstreams = [[], []], pool_cache = [], pool_hdl_hash = [],
      calls = [D_ALLOC_pool 7, ABT_rwlock_create 7, Collective_child_add 7,
               Collective_child_delete 7, ABT_rwlock_free 7, D_FREE_pool 7]\<rparr>"

text \<open>A creation argument with a map buffer that asks for a group.\<close>

definition create_arg_group :: ds_pool_create_arg where
  "create_arg_group = \<lparr>pca_map_buf = Some [1, 2], pca_map_version = 3, pca_create_group = True\<rparr>"

subsection \<open>Auxiliary notions for the statements\<close>

text \<open>The identifiers present in the handle table.\<close>

definition linked_hdls :: "srv_state \<Rightarrow> uuid_t set" where
  "linked_hdls s = sph_uuid ` {hdl \<in> set (pool_hdl_hash s). sph_entry hdl}"

text \<open>The registry of one stream after the cached map version of its entry for a pool
  has been overwritten.\<close>

definition child_set_map_version :: "uuid_t \<Rightarrow> 32 word \<Rightarrow> dsm_tls \<Rightarrow> dsm_tls" where
  "child_set_map_version uuid v tls =
     (case child_index uuid tls of
        None \<Rightarrow> tls
      | Some i \<Rightarrow> tls[i := (tls ! i)\<lparr>spc_map_version := v\<rparr>])"

text \<open>The call that gives back what a call has acquired.\<close>

fun release_of :: "call \<Rightarrow> call" where
  "release_of (D_ALLOC_pool key) = D_FREE_pool key"
| "release_of (ABT_rwlock_create key) = ABT_rwlock_free key"
| "release_of (Pool_map_create key) = Pool_map_destroy key"
| "release_of (Collective_child_add key) = Collective_child_delete key"
| "release_of (Ds_pool_group_create key) = Ds_pool_group_destroy key"
| "release_of c = c"

section \<open>Properties\<close>

subsection \<open>Lists, reference counts and failure counts\<close>

lemma first_index_SomeD:
  "first_index P xs = Some p \<Longrightarrow> p < length xs \<and> P (xs ! p)"
  by (induction xs arbitrary: p) (auto split: if_splits)

lemma first_index_None_iff: "first_index P xs = None \<longleftrightarrow> (\<forall>x\<in>set xs. \<not> P x)"
  by (induction xs) auto

lemma first_index_update_same:
  "p < length xs \<Longrightarrow> P y = P (xs ! p) \<Longrightarrow> first_index P (xs[p := y]) = first_index P xs"
proof (induction xs arbitrary: p)
  case Nil
  then show ?case by simp
next
  case (Cons x xs)
  then show ?case by (cases p) auto
qed

lemma ref_inc_pos:
  fixes r :: "32 word"
  assumes "0 <s r" "r \<noteq> 0x7FFFFFFF"
  shows "0 <s r + 1"
proof -
  have "sint r < 2 ^ 31" using sint_lt [of r] by simp
  moreover have "sint r \<noteq> 2 ^ 31 - 1"
  proof
    assume "sint r = 2 ^ 31 - 1"
    then have "word_of_int (sint r) = (word_of_int (2 ^ 31 - 1) :: 32 word)" by simp
    then show False using assms(2) by simp
  qed
  ultimately have "sint r + 1 < 2 ^ 31" by simp
  moreover have "0 < sint r" using assms(1) by (simp add: word_sless_alt)
  ultimately have "sint (r + 1) = sint r + 1"
    by (simp add: sint_word_ariths signed_take_bit_int_eq_self)
  with \<open>0 < sint r\<close> show ?thesis by (simp add: word_sless_alt)
qed

lemma ref_pos_nonzero: "0 <s (r :: 32 word) \<Longrightarrow> r \<noteq> 0"
  by (auto simp: word_sless_alt)

lemma ref_dec_pos:
  fixes r :: "32 word"
  assumes "0 <s r + 1" "r \<noteq> 0"
  shows "0 <s r \<and> r \<noteq> 0x7FFFFFFF"
proof -
  have ne: "r \<noteq> 0x7FFFFFFF"
  proof
    assume "r = 0x7FFFFFFF"
    with assms(1) show False by (simp add: word_sless_alt)
  qed
  have "sint r < 2 ^ 31" using sint_lt [of r] by simp
  moreover have "sint r \<noteq> 2 ^ 31 - 1"
  proof
    assume "sint r = 2 ^ 31 - 1"
    then have "word_of_int (sint r) = (word_of_int (2 ^ 31 - 1) :: 32 word)" by simp
    then show False using ne by simp
  qed
  moreover have "- (2 ^ 31) \<le> sint r" using sint_ge [of r] by simp
  ultimately have "sint (r + 1) = sint r + 1"
    by (simp add: sint_word_ariths signed_take_bit_int_eq_self)
  with assms(1) have "0 \<le> sint r" by (simp add: word_sless_alt)
  moreover have "sint r \<noteq> 0"
  proof
    assume "sint r = 0"
    then have "word_of_int (sint r) = (word_of_int 0 :: 32 word)" by simp
    then show False using assms(2) by simp
  qed
  ultimately show ?thesis using ne by (simp add: word_sless_alt)
qed

lemma sint_add_no_overflow:
  fixes a b :: "32 word"
  assumes "0 \<le> sint a" "0 \<le> sint b" "sint a + sint b < 2 ^ 31"
  shows "sint (a + b) = sint a + sint b"
  using assms by (simp add: sint_word_ariths signed_take_bit_int_eq_self)

lemma sint_of_nat_small:
  assumes "k < 2 ^ 31"
  shows "sint (of_nat k :: 32 word) = int k"
proof -
  have "sint (of_nat k :: 32 word) = signed_take_bit 31 (int k)"
    by (simp add: signed_of_nat)
  also have "\<dots> = int k"
    using assms by (intro signed_take_bit_int_eq_self) auto
  finally show ?thesis .
qed

lemma sum_list_zero_one:
  fixes xs :: "32 word list"
  assumes "\<forall>x\<in>set xs. x = 0 \<or> x = 1"
  shows "\<exists>k\<le>length xs. sum_list xs = of_nat k"
  using assms
proof (induction xs)
  case Nil
  then show ?case by simp
next
  case (Cons x xs)
  then obtain k where k: "k \<le> length xs" "sum_list xs = of_nat k" by auto
  from Cons.prems have "x = 0 \<or> x = 1" by simp
  then show ?case
  proof
    assume "x = 0"
    with k show ?thesis by (intro exI [of _ k]) simp
  next
    assume "x = 1"
    with k show ?thesis by (intro exI [of _ "Suc k"]) simp
  qed
qed

lemma failure_count_bound:
  fixes xs :: "32 word list"
  assumes "\<forall>x\<in>set xs. x = 0 \<or> x = 1" and "length xs < 2 ^ 31"
  shows "0 \<le> sint (sum_list xs) \<and> sint (sum_list xs) \<le> int (length xs)"
proof -
  from sum_list_zero_one [OF assms(1)] obtain k where
    k: "k \<le> length xs" "sum_list xs = of_nat k" by auto
  with assms(2) have "k < 2 ^ 31" by simp
  then have "sint (sum_list xs) = int k" by (simp add: k sint_of_nat_small)
  with k show ?thesis by simp
qed

lemma fold_connect_aggregator:
  "tco_rc (fold ds_pool_tgt_connect_aggregator rs res) = tco_rc res + sum_list (map tco_rc rs)"
  by (induction rs arbitrary: res) (simp_all add: ds_pool_tgt_connect_aggregator_def algebra_simps)

lemma fold_disconnect_aggregator:
  "tdo_rc (fold ds_pool_tgt_disconnect_aggregator rs res) = tdo_rc res + sum_list (map tdo_rc rs)"
  by (induction rs arbitrary: res) (simp_all add: ds_pool_tgt_disconnect_aggregator_def algebra_simps)

lemma fold_update_map_aggregator:
  "tuo_rc (fold ds_pool_tgt_update_map_aggregator rs res) = tuo_rc res + sum_list (map tuo_rc rs)"
  by (induction rs arbitrary: res) (simp_all add: ds_pool_tgt_update_map_aggregator_def algebra_simps)

lemma sum_list_all_zero:
  fixes xs :: "32 word list"
  shows "\<forall>x\<in>set xs. x = 0 \<Longrightarrow> sum_list xs = 0"
  by (induction xs) auto

subsection \<open>Unfolding the embedding\<close>

lemmas child_defs = child_index_def ds_pool_child_lookup_def ds_pool_child_put_def
  pool_child_add_one_def pool_child_delete_one_def update_child_map_version_def free_at_def

lemmas pool_defs = pool_cmp_keys_def err_pool_def err_lock_def err_collective_def
  pool_alloc_ref_def pool_free_ref_def daos_lru_ref_hold_def daos_lru_ref_release_def
  ds_pool_lookup_create_def ds_pool_lookup_def ds_pool_put_def dss_collective_def log_call_def
  store_sp_map_version_def

lemmas hdl_defs = pool_hdl_key_cmp_def pool_hdl_rec_addref_def pool_hdl_rec_decref_def
  pool_hdl_rec_free_def hdl_index_def dhash_rec_find_def dhash_rec_decref_def
  dhash_rec_insert_def dhash_rec_delete_def pool_hdl_add_def pool_hdl_delete_def
  ds_pool_hdl_lookup_def ds_pool_hdl_put_def hdl_zeroed_def

lemmas const_defs = DER_INVAL_def DER_EXIST_def DER_NONEXIST_def DER_NOMEM_def ABT_SUCCESS_def
  INT_MAX_def

lemmas example_defs = env_ok_def st_init_def connect_7_1_def st_connected_def update_7_9_def
  st_updated_def disconnect_5_1_def st_disconnected_def create_arg_group_def

subsection \<open>What a call leaves alone\<close>

lemma collective_from_length:
  "collective_from f tid tlss = Some (rc, tlss') \<Longrightarrow> length tlss' = length tlss"
  by (induction tlss arbitrary: tid rc tlss') (auto split: option.splits prod.splits)

lemma dss_collective_frame:
  "dss_collective f s = Some (rc, s') \<Longrightarrow>
     pool_cache s' = pool_cache s \<and> pool_hdl_hash s' = pool_hdl_hash s \<and> calls s' = calls s"
  by (auto simp: dss_collective_def split: option.splits)

lemma log_call_simps [simp]:
  "pool_cache (log_call c s) = pool_cache s"
  "pool_hdl_hash (log_call c s) = pool_hdl_hash s"
  "xstreams (log_call c s) = xstreams s"
  "calls (log_call c s) = calls s @ [c]"
  by (simp_all add: log_call_def)

lemma err_collective_frame:
  "err_collective key arg s = Some s' \<Longrightarrow>
     pool_cache s' = pool_cache s \<and> pool_hdl_hash s' = pool_hdl_hash s"
  by (auto simp: err_collective_def err_lock_def err_pool_def Let_def
      dest!: dss_collective_frame split: option.splits if_splits)

lemma pool_alloc_ref_frame:
  assumes "pool_alloc_ref e key varg s = Some (rc, link, s')"
  shows "pool_cache s' = pool_cache s \<and> pool_hdl_hash s' = pool_hdl_hash s"
  using assms
  by (auto simp: pool_alloc_ref_def err_lock_def err_pool_def Let_def
      dest!: dss_collective_frame err_collective_frame split: option.splits if_splits)

lemma daos_lru_ref_hold_hdls:
  "daos_lru_ref_hold e key arg s = Some (rc, link, s') \<Longrightarrow> pool_hdl_hash s' = pool_hdl_hash s"
  by (auto simp: daos_lru_ref_hold_def dest!: pool_alloc_ref_frame split: option.splits if_splits)

lemma ds_pool_lookup_create_hdls:
  "ds_pool_lookup_create e key arg s = Some (rc, link, s') \<Longrightarrow> pool_hdl_hash s' = pool_hdl_hash s"
  by (auto simp: ds_pool_lookup_create_def dest!: daos_lru_ref_hold_hdls split: if_splits)

subsection \<open>Looking a handle up and putting it back\<close>

lemma hdl_lookup_put:
  assumes "hdl_index key s = Some p"
    and "0 <s sph_ref (pool_hdl_hash s ! p)"
    and "sph_ref (pool_hdl_hash s ! p) \<noteq> 0x7FFFFFFF"
  shows "ds_pool_hdl_put p (snd (ds_pool_hdl_lookup key s)) = Some s"
    and "fst (ds_pool_hdl_lookup key s) = Some p"
    and "pool_hdl_hash (snd (ds_pool_hdl_lookup key s)) ! p =
           (pool_hdl_hash s ! p)\<lparr>sph_ref := sph_ref (pool_hdl_hash s ! p) + 1\<rparr>"
proof -
  have p: "p < length (pool_hdl_hash s)"
    using assms(1) by (auto simp: hdl_index_def dest: first_index_SomeD)
  show "fst (ds_pool_hdl_lookup key s) = Some p"
    using assms(1) by (simp add: ds_pool_hdl_lookup_def dhash_rec_find_def)
  show "pool_hdl_hash (snd (ds_pool_hdl_lookup key s)) ! p =
           (pool_hdl_hash s ! p)\<lparr>sph_ref := sph_ref (pool_hdl_hash s ! p) + 1\<rparr>"
    using assms(1) p
    by (simp add: ds_pool_hdl_lookup_def dhash_rec_find_def pool_hdl_rec_addref_def)
  show "ds_pool_hdl_put p (snd (ds_pool_hdl_lookup key s)) = Some s"
    using assms p ref_inc_pos [OF assms(2,3)] ref_pos_nonzero [OF assms(2)]
    by (simp add: ds_pool_hdl_lookup_def dhash_rec_find_def pool_hdl_rec_addref_def
        ds_pool_hdl_put_def dhash_rec_decref_def pool_hdl_rec_decref_def)
qed

lemma connect_found:
  assumes "hdl_index (tci_hdl inp) s = Some p"
    and "0 <s sph_ref (pool_hdl_hash s ! p)"
    and "sph_ref (pool_hdl_hash s ! p) \<noteq> 0x7FFFFFFF"
  shows "ds_pool_tgt_connect_handler e inp s =
           (if sph_capas (pool_hdl_hash s ! p) = tci_capas inp
            then Some (\<lparr>tco_rc = 0\<rparr>, 0, s)
            else Some (\<lparr>tco_rc = 1\<rparr>, - DER_EXIST, s))"
proof -
  obtain q s1 where l: "ds_pool_hdl_lookup (tci_hdl inp) s = (q, s1)"
    by (cases "ds_pool_hdl_lookup (tci_hdl inp) s")
  from hdl_lookup_put [OF assms] l
  have "q = Some p" "ds_pool_hdl_put p s1 = Some s"
    "sph_capas (pool_hdl_hash s1 ! p) = sph_capas (pool_hdl_hash s ! p)"
    by simp_all
  then show ?thesis
    unfolding ds_pool_tgt_connect_handler_def l
    by (simp add: DER_EXIST_def)
qed

lemma hdl_lookup_None:
  "hdl_index key s = None \<Longrightarrow> ds_pool_hdl_lookup key s = (None, s)"
  by (simp add: ds_pool_hdl_lookup_def dhash_rec_find_def)

lemma hdl_lookup_Some:
  "hdl_index key s = Some p \<Longrightarrow>
     ds_pool_hdl_lookup key s =
       (Some p, s\<lparr>pool_hdl_hash := pool_hdl_rec_addref p (pool_hdl_hash s)\<rparr>)"
  by (simp add: ds_pool_hdl_lookup_def dhash_rec_find_def)

text \<open>A linked record whose lookup reference can be put back has a positive count
  that is not saturated.\<close>

lemma hdl_put_after_lookup:
  assumes "hdl_index key s = Some p"
    and "ds_pool_hdl_put p (s\<lparr>pool_hdl_hash := pool_hdl_rec_addref p (pool_hdl_hash s)\<rparr>) = Some s2"
  shows "0 <s sph_ref (pool_hdl_hash s ! p) \<and> sph_ref (pool_hdl_hash s ! p) \<noteq> 0x7FFFFFFF"
proof -
  have p: "p < length (pool_hdl_hash s)" and linked: "sph_entry (pool_hdl_hash s ! p)"
    using assms(1) by (auto simp: hdl_index_def dest: first_index_SomeD)
  from assms(2) p have pos: "0 <s sph_ref (pool_hdl_hash s ! p) + 1"
    by (auto simp: ds_pool_hdl_put_def dhash_rec_decref_def pool_hdl_rec_decref_def
        pool_hdl_rec_addref_def split: if_splits)
  have "sph_ref (pool_hdl_hash s ! p) \<noteq> 0"
  proof
    assume "sph_ref (pool_hdl_hash s ! p) = 0"
    with assms(2) p linked show False
      by (auto simp: ds_pool_hdl_put_def dhash_rec_decref_def pool_hdl_rec_decref_def
          pool_hdl_rec_addref_def pool_hdl_rec_free_def Let_def split: if_splits)
  qed
  with pos show ?thesis by (rule ref_dec_pos)
qed

text \<open>After a connect that reported success, the handle is in the table with the
  capability mask of the request and a count that a further lookup can raise.\<close>

lemma connect_success_entry:
  assumes "ds_pool_tgt_connect_handler e inp s = Some (out, 0, s1)"
  shows "\<exists>p. hdl_index (tci_hdl inp) s1 = Some p
           \<and> sph_capas (pool_hdl_hash s1 ! p) = tci_capas inp
           \<and> 0 <s sph_ref (pool_hdl_hash s1 ! p)
           \<and> sph_ref (pool_hdl_hash s1 ! p) \<noteq> 0x7FFFFFFF"
proof (cases "hdl_index (tci_hdl inp) s")
  case (Some p)
  from assms obtain s2 where
    put: "ds_pool_hdl_put p (s\<lparr>pool_hdl_hash := pool_hdl_rec_addref p (pool_hdl_hash s)\<rparr>) = Some s2"
    by (auto simp: ds_pool_tgt_connect_handler_def hdl_lookup_Some [OF Some] Let_def
        split: option.splits)
  note ref = hdl_put_after_lookup [OF Some put]
  from assms connect_found [OF Some ref [THEN conjunct1] ref [THEN conjunct2], of e]
  have "s1 = s" "sph_capas (pool_hdl_hash s ! p) = tci_capas inp"
    by (auto simp: DER_EXIST_def split: if_splits)
  with Some ref show ?thesis by auto
next
  case None
  let ?s2 = "s\<lparr>pool_hdl_hash := hdl_zeroed # pool_hdl_hash s\<rparr>"
  let ?arg = "\<lparr>pca_map_buf = None, pca_map_version = tci_map_version inp,
                pca_create_group = False\<rparr>"
  from assms have nomem: "\<not> nomem_hdl e"
    by (auto simp: ds_pool_tgt_connect_handler_def hdl_lookup_None [OF None] Let_def DER_NOMEM_def
        split: if_splits)
  from assms nomem obtain rc pool s3 where
    lc: "ds_pool_lookup_create e (tci_uuid inp) (Some ?arg) ?s2 = Some (rc, pool, s3)"
    by (auto simp: ds_pool_tgt_connect_handler_def hdl_lookup_None [OF None] Let_def
        split: option.splits)
  have hs3: "pool_hdl_hash s3 = hdl_zeroed # pool_hdl_hash s"
    using ds_pool_lookup_create_hdls [OF lc] by simp
  have idx: "hdl_index (tci_hdl inp)
               (s3\<lparr>pool_hdl_hash := (pool_hdl_hash s3)
                     [0 := (pool_hdl_hash s3 ! 0)
                        \<lparr>sph_uuid := tci_hdl inp, sph_capas := tci_capas inp, sph_pool := pool\<rparr>]\<rparr>) = None"
    using None by (simp add: hdl_index_def hs3 hdl_zeroed_def)
  from assms nomem lc have "rc = 0"
    by (auto simp: ds_pool_tgt_connect_handler_def hdl_lookup_None [OF None] Let_def
        split: if_splits)
  with assms nomem lc idx have
    "s1 = s3\<lparr>pool_hdl_hash :=
              \<lparr>sph_entry = True, sph_uuid = tci_hdl inp, sph_capas = tci_capas inp,
                sph_pool = pool, sph_ref = 1\<rparr> # pool_hdl_hash s\<rparr>"
    by (auto simp: ds_pool_tgt_connect_handler_def hdl_lookup_None [OF None] Let_def
        pool_hdl_add_def dhash_rec_insert_def pool_hdl_rec_addref_def hs3 hdl_zeroed_def
        split: if_splits)
  then show ?thesis
    by (simp add: hdl_index_def pool_hdl_key_cmp_def word_sless_alt)
qed

section \<open>The claims\<close>

subsection \<open>Connect\<close>

text \<open>
  C1. A connect request whose handle identifier is already in the handle table with
  the capability mask of the request is answered with failure count 0, and the state
  is left as it was: no record is added, and the reference that the lookup took on
  the existing record is put back, so its count is the one before the request. The
  record found is linked, so its count is at least the table's own reference; it is
  taken to be below \<open>INT_MAX\<close>, since the lookup increments it. Hence a second identical
  connect after a first one that reported success reports success again and changes
  nothing.
\<close>

theorem connect_same_capas_idempotent:
  "(hdl_index (tci_hdl inp) s = Some p
      \<and> sph_capas (pool_hdl_hash s ! p) = tci_capas inp
      \<and> 0 <s sph_ref (pool_hdl_hash s ! p)
      \<and> sph_ref (pool_hdl_hash s ! p) \<noteq> 0x7FFFFFFF \<longrightarrow>
    ds_pool_tgt_connect_handler e inp s = Some (\<lparr>tco_rc = 0\<rparr>, 0, s)
    \<and> sph_ref (pool_hdl_hash (snd (ds_pool_hdl_lookup (tci_hdl inp) s)) ! p)
        = sph_ref (pool_hdl_hash s ! p) + 1
    \<and> ds_pool_hdl_put p (snd (ds_pool_hdl_lookup (tci_hdl inp) s)) = Some s)
   \<and> (ds_pool_tgt_connect_handler e inp s = Some (out, 0, s1) \<longrightarrow>
       ds_pool_tgt_connect_handler e' inp s1 = Some (\<lparr>tco_rc = 0\<rparr>, 0, s1))"
proof (intro conjI impI)
  assume a: "hdl_index (tci_hdl inp) s = Some p
      \<and> sph_capas (pool_hdl_hash s ! p) = tci_capas inp
      \<and> 0 <s sph_ref (pool_hdl_hash s ! p)
      \<and> sph_ref (pool_hdl_hash s ! p) \<noteq> 0x7FFFFFFF"
  then show "ds_pool_tgt_connect_handler e inp s = Some (\<lparr>tco_rc = 0\<rparr>, 0, s)"
    by (simp add: connect_found)
  from a have found: "hdl_index (tci_hdl inp) s = Some p"
    and pos: "0 <s sph_ref (pool_hdl_hash s ! p)"
    and unsat: "sph_ref (pool_hdl_hash s ! p) \<noteq> 0x7FFFFFFF"
    by simp_all
  from hdl_lookup_put(3) [OF found pos unsat]
  show "sph_ref (pool_hdl_hash (snd (ds_pool_hdl_lookup (tci_hdl inp) s)) ! p)
          = sph_ref (pool_hdl_hash s ! p) + 1"
    by simp
  from hdl_lookup_put(1) [OF found pos unsat]
  show "ds_pool_hdl_put p (snd (ds_pool_hdl_lookup (tci_hdl inp) s)) = Some s" .
next
  assume "ds_pool_tgt_connect_handler e inp s = Some (out, 0, s1)"
  from connect_success_entry [OF this] obtain q where
    "hdl_index (tci_hdl inp) s1 = Some q"
    "sph_capas (pool_hdl_hash s1 ! q) = tci_capas inp"
    "0 <s sph_ref (pool_hdl_hash s1 ! q)"
    "sph_ref (pool_hdl_hash s1 ! q) \<noteq> 0x7FFFFFFF"
    by blast
  then show "ds_pool_tgt_connect_handler e' inp s1 = Some (\<lparr>tco_rc = 0\<rparr>, 0, s1)"
    by (simp add: connect_found)
qed

theorem connect_same_capas_idempotent_witness:
  "hdl_index (tci_hdl connect_7_1) st_connected = Some 0
   \<and> sph_capas (pool_hdl_hash st_connected ! 0) = tci_capas connect_7_1
   \<and> 0 <s sph_ref (pool_hdl_hash st_connected ! 0)
   \<and> sph_ref (pool_hdl_hash st_connected ! 0) \<noteq> 0x7FFFFFFF
   \<and> ds_pool_tgt_connect_handler env_ok connect_7_1 st_init
       = Some (\<lparr>tco_rc = 0\<rparr>, 0, st_connected)
   \<and> ds_pool_tgt_connect_handler env_ok connect_7_1 st_connected
       = Some (\<lparr>tco_rc = 0\<rparr>, 0, st_connected)
   \<and> ds_pool_tgt_connect_handler (env_ok\<lparr>nomem_hdl := True\<rparr>) connect_7_1 st_connected
       = Some (\<lparr>tco_rc = 0\<rparr>, 0, st_connected)
   \<and> sph_ref (pool_hdl_hash st_connected ! 0) = 1
   \<and> sph_ref (pool_hdl_hash (snd (ds_pool_hdl_lookup (tci_hdl connect_7_1) st_connected)) ! 0) = 2
   \<and> ds_pool_hdl_put 0 (snd (ds_pool_hdl_lookup (tci_hdl connect_7_1) st_connected))
       = Some st_connected"
proof -
  have ref: "sph_ref (pool_hdl_hash st_connected ! 0) = 1"
    by (simp add: example_defs)
  have first: "ds_pool_tgt_connect_handler env_ok connect_7_1 st_init
                 = Some (\<lparr>tco_rc = 0\<rparr>, 0, st_connected)"
    by (simp add: ds_pool_tgt_connect_handler_def example_defs child_defs pool_defs hdl_defs
        const_defs Let_def)
  have found: "hdl_index (tci_hdl connect_7_1) st_connected = Some 0
      \<and> sph_capas (pool_hdl_hash st_connected ! 0) = tci_capas connect_7_1
      \<and> 0 <s sph_ref (pool_hdl_hash st_connected ! 0)
      \<and> sph_ref (pool_hdl_hash st_connected ! 0) \<noteq> 0x7FFFFFFF"
    by (simp add: example_defs hdl_defs word_sless_alt)
  show ?thesis
    using first found ref
      connect_same_capas_idempotent
        [of connect_7_1 st_connected 0 env_ok "\<lparr>tco_rc = 0\<rparr>" st_connected env_ok]
      connect_same_capas_idempotent
        [of connect_7_1 st_init 0 env_ok "\<lparr>tco_rc = 0\<rparr>" st_connected "env_ok\<lparr>nomem_hdl := True\<rparr>"]
    by simp
qed

text \<open>
  C2. A connect request whose handle identifier is already in the handle table with
  a capability mask other than that of the request fails with \<open>-DER_EXIST\<close> (the
  conflict error), the reply carries failure count 1, and the state is left as it
  was: nothing is inserted, and the identifier, the capability mask and the pool
  reference of the existing record are the ones before the request.
\<close>

theorem connect_other_capas_conflict:
  "hdl_index (tci_hdl inp) s = Some p
     \<and> sph_capas (pool_hdl_hash s ! p) \<noteq> tci_capas inp
     \<and> 0 <s sph_ref (pool_hdl_hash s ! p)
     \<and> sph_ref (pool_hdl_hash s ! p) \<noteq> 0x7FFFFFFF \<longrightarrow>
   ds_pool_tgt_connect_handler e inp s = Some (\<lparr>tco_rc = 1\<rparr>, - DER_EXIST, s)"
  by (simp add: connect_found)

theorem connect_other_capas_conflict_witness:
  "hdl_index (tci_hdl (connect_7_1\<lparr>tci_capas := 2\<rparr>)) st_connected = Some 0
   \<and> sph_capas (pool_hdl_hash st_connected ! 0) \<noteq> tci_capas (connect_7_1\<lparr>tci_capas := 2\<rparr>)
   \<and> 0 <s sph_ref (pool_hdl_hash st_connected ! 0)
   \<and> sph_ref (pool_hdl_hash st_connected ! 0) \<noteq> 0x7FFFFFFF
   \<and> ds_pool_tgt_connect_handler env_ok (connect_7_1\<lparr>tci_capas := 2\<rparr>) st_connected
       = Some (\<lparr>tco_rc = 1\<rparr>, - DER_EXIST, st_connected)"
proof -
  have found: "hdl_index (tci_hdl (connect_7_1\<lparr>tci_capas := 2\<rparr>)) st_connected = Some 0
      \<and> sph_capas (pool_hdl_hash st_connected ! 0) \<noteq> tci_capas (connect_7_1\<lparr>tci_capas := 2\<rparr>)
      \<and> 0 <s sph_ref (pool_hdl_hash st_connected ! 0)
      \<and> sph_ref (pool_hdl_hash st_connected ! 0) \<noteq> 0x7FFFFFFF"
    by (simp add: example_defs hdl_defs word_sless_alt)
  show ?thesis
    using found
      connect_other_capas_conflict [of "connect_7_1\<lparr>tci_capas := 2\<rparr>" st_connected 0 env_ok]
    by simp
qed

text \<open>
  C9. When the handle identifier of a connect request is already in the handle table,
  the pool identifier of the request plays no part: the handler answers as it would
  for any other pool identifier, and the answer is decided by the comparison of the
  capability masks alone. In particular a request with the same handle identifier and
  capability mask, but for a pool other than the one recorded in the existing record,
  is answered with success and changes nothing.
\<close>

theorem connect_found_ignores_pool:
  "(hdl_index (tci_hdl inp) s = Some p \<longrightarrow>
      ds_pool_tgt_connect_handler e (inp\<lparr>tci_uuid := uuid\<rparr>) s
        = ds_pool_tgt_connect_handler e inp s)
   \<and> (hdl_index (tci_hdl inp) s = Some p
        \<and> 0 <s sph_ref (pool_hdl_hash s ! p)
        \<and> sph_ref (pool_hdl_hash s ! p) \<noteq> 0x7FFFFFFF \<longrightarrow>
      ds_pool_tgt_connect_handler e inp s =
        (if sph_capas (pool_hdl_hash s ! p) = tci_capas inp
         then Some (\<lparr>tco_rc = 0\<rparr>, 0, s)
         else Some (\<lparr>tco_rc = 1\<rparr>, - DER_EXIST, s)))
   \<and> (hdl_index (tci_hdl inp) s = Some p
        \<and> sph_capas (pool_hdl_hash s ! p) = tci_capas inp
        \<and> sph_pool (pool_hdl_hash s ! p) \<noteq> Some (tci_uuid inp)
        \<and> 0 <s sph_ref (pool_hdl_hash s ! p)
        \<and> sph_ref (pool_hdl_hash s ! p) \<noteq> 0x7FFFFFFF \<longrightarrow>
      ds_pool_tgt_connect_handler e inp s = Some (\<lparr>tco_rc = 0\<rparr>, 0, s))"
proof (intro conjI impI)
  assume "hdl_index (tci_hdl inp) s = Some p"
  then show "ds_pool_tgt_connect_handler e (inp\<lparr>tci_uuid := uuid\<rparr>) s
               = ds_pool_tgt_connect_handler e inp s"
    by (simp add: ds_pool_tgt_connect_handler_def hdl_lookup_Some)
next
  assume "hdl_index (tci_hdl inp) s = Some p
        \<and> 0 <s sph_ref (pool_hdl_hash s ! p)
        \<and> sph_ref (pool_hdl_hash s ! p) \<noteq> 0x7FFFFFFF"
  then show "ds_pool_tgt_connect_handler e inp s =
        (if sph_capas (pool_hdl_hash s ! p) = tci_capas inp
         then Some (\<lparr>tco_rc = 0\<rparr>, 0, s)
         else Some (\<lparr>tco_rc = 1\<rparr>, - DER_EXIST, s))"
    by (simp add: connect_found)
next
  assume "hdl_index (tci_hdl inp) s = Some p
        \<and> sph_capas (pool_hdl_hash s ! p) = tci_capas inp
        \<and> sph_pool (pool_hdl_hash s ! p) \<noteq> Some (tci_uuid inp)
        \<and> 0 <s sph_ref (pool_hdl_hash s ! p)
        \<and> sph_ref (pool_hdl_hash s ! p) \<noteq> 0x7FFFFFFF"
  then show "ds_pool_tgt_connect_handler e inp s = Some (\<lparr>tco_rc = 0\<rparr>, 0, s)"
    by (simp add: connect_found)
qed

theorem connect_found_ignores_pool_witness:
  "hdl_index (tci_hdl (connect_7_1\<lparr>tci_uuid := 8\<rparr>)) st_connected = Some 0
   \<and> sph_capas (pool_hdl_hash st_connected ! 0) = tci_capas (connect_7_1\<lparr>tci_uuid := 8\<rparr>)
   \<and> sph_pool (pool_hdl_hash st_connected ! 0) = Some 7
   \<and> tci_uuid (connect_7_1\<lparr>tci_uuid := 8\<rparr>) = 8
   \<and> 0 <s sph_ref (pool_hdl_hash st_connected ! 0)
   \<and> sph_ref (pool_hdl_hash st_connected ! 0) \<noteq> 0x7FFFFFFF
   \<and> ds_pool_tgt_connect_handler env_ok (connect_7_1\<lparr>tci_uuid := 8\<rparr>) st_connected
       = Some (\<lparr>tco_rc = 0\<rparr>, 0, st_connected)
   \<and> ds_pool_tgt_connect_handler env_ok (connect_7_1\<lparr>tci_uuid := 8\<rparr>) st_connected
       = ds_pool_tgt_connect_handler env_ok (connect_7_1\<lparr>tci_uuid := 9\<rparr>) st_connected"
proof -
  have found: "hdl_index (tci_hdl (connect_7_1\<lparr>tci_uuid := 8\<rparr>)) st_connected = Some 0
      \<and> sph_capas (pool_hdl_hash st_connected ! 0) = tci_capas (connect_7_1\<lparr>tci_uuid := 8\<rparr>)
      \<and> sph_pool (pool_hdl_hash st_connected ! 0) = Some 7
      \<and> tci_uuid (connect_7_1\<lparr>tci_uuid := 8\<rparr>) = 8
      \<and> 0 <s sph_ref (pool_hdl_hash st_connected ! 0)
      \<and> sph_ref (pool_hdl_hash st_connected ! 0) \<noteq> 0x7FFFFFFF"
    by (simp add: example_defs hdl_defs word_sless_alt)
  show ?thesis
    using found
      connect_found_ignores_pool [of "connect_7_1\<lparr>tci_uuid := 8\<rparr>" st_connected 0 env_ok 9]
    by simp
qed

subsection \<open>Disconnect\<close>

text \<open>
  C8. A disconnect request whose declared count is not zero and whose array pointer
  is null fails with \<open>-DER_INVAL\<close>: the reply carries failure count 1 and the state is
  left as it was. A request whose declared count is zero is answered with failure
  count 0 at once, whatever the array pointer, and the state is left as it was.
\<close>

theorem disconnect_null_array_invalid:
  "(da_count (tdi_hdls inp) \<noteq> 0 \<and> da_arrays (tdi_hdls inp) = None \<longrightarrow>
      ds_pool_tgt_disconnect_handler inp s = Some (\<lparr>tdo_rc = 1\<rparr>, - DER_INVAL, s))
   \<and> (da_count (tdi_hdls inp) = 0 \<longrightarrow>
      ds_pool_tgt_disconnect_handler inp s = Some (\<lparr>tdo_rc = 0\<rparr>, 0, s))"
  by (simp add: ds_pool_tgt_disconnect_handler_def DER_INVAL_def)

theorem disconnect_null_array_invalid_witness:
  "ds_pool_tgt_disconnect_handler
      \<lparr>tdi_uuid = 7, tdi_hdls = \<lparr>da_count = 2, da_arrays = None\<rparr>\<rparr> st_connected
     = Some (\<lparr>tdo_rc = 1\<rparr>, - DER_INVAL, st_connected)
   \<and> ds_pool_tgt_disconnect_handler
      \<lparr>tdi_uuid = 7, tdi_hdls = \<lparr>da_count = 0, da_arrays = None\<rparr>\<rparr> st_connected
     = Some (\<lparr>tdo_rc = 0\<rparr>, 0, st_connected)
   \<and> ds_pool_tgt_disconnect_handler
      \<lparr>tdi_uuid = 7, tdi_hdls = \<lparr>da_count = 0, da_arrays = Some [1]\<rparr>\<rparr> st_connected
     = Some (\<lparr>tdo_rc = 0\<rparr>, 0, st_connected)"
  using disconnect_null_array_invalid
      [of "\<lparr>tdi_uuid = 7, tdi_hdls = \<lparr>da_count = 2, da_arrays = None\<rparr>\<rparr>" st_connected]
    disconnect_null_array_invalid
      [of "\<lparr>tdi_uuid = 7, tdi_hdls = \<lparr>da_count = 0, da_arrays = None\<rparr>\<rparr>" st_connected]
    disconnect_null_array_invalid
      [of "\<lparr>tdi_uuid = 7, tdi_hdls = \<lparr>da_count = 0, da_arrays = Some [1]\<rparr>\<rparr>" st_connected]
  by simp

subsection \<open>Disconnect: handles that are not in the table\<close>

lemma hdl_index_None_iff: "hdl_index key s = None \<longleftrightarrow> key \<notin> linked_hdls s"
  by (auto simp: hdl_index_def linked_hdls_def first_index_None_iff pool_hdl_key_cmp_def)

lemma set_free_at: "set (free_at p xs) \<subseteq> set xs"
  by (auto simp: free_at_def dest: in_set_takeD in_set_dropD)

lemma pool_free_ref_frame:
  "pool_free_ref pool s = Some s' \<Longrightarrow>
     pool_cache s' = pool_cache s \<and> pool_hdl_hash s' = pool_hdl_hash s"
  by (auto simp: pool_free_ref_def Let_def dest!: dss_collective_frame
      split: option.splits if_splits)

lemma ds_pool_put_hdls:
  "ds_pool_put pool s = Some s' \<Longrightarrow> pool_hdl_hash s' = pool_hdl_hash s"
  by (auto simp: ds_pool_put_def daos_lru_ref_release_def Let_def dest!: pool_free_ref_frame
      split: option.splits if_splits)

lemma linked_hdls_update_ref:
  "p < length (pool_hdl_hash s) \<Longrightarrow>
   linked_hdls (s\<lparr>pool_hdl_hash := (pool_hdl_hash s)[p := (pool_hdl_hash s ! p)\<lparr>sph_ref := r\<rparr>]\<rparr>)
     = linked_hdls s"
  (is "_ \<Longrightarrow> ?l = ?r")
proof -
  assume p: "p < length (pool_hdl_hash s)"
  have "map (\<lambda>h. (sph_entry h, sph_uuid h))
          ((pool_hdl_hash s)[p := (pool_hdl_hash s ! p)\<lparr>sph_ref := r\<rparr>])
        = map (\<lambda>h. (sph_entry h, sph_uuid h)) (pool_hdl_hash s)"
    using p by (simp add: map_update list_update_same_conv)
  then have "set (map (\<lambda>h. (sph_entry h, sph_uuid h))
          ((pool_hdl_hash s)[p := (pool_hdl_hash s ! p)\<lparr>sph_ref := r\<rparr>]))
        = set (map (\<lambda>h. (sph_entry h, sph_uuid h)) (pool_hdl_hash s))"
    by simp
  then have eq: "(\<lambda>h. (sph_entry h, sph_uuid h)) ` set ((pool_hdl_hash s)[p := (pool_hdl_hash s ! p)\<lparr>sph_ref := r\<rparr>])
     = (\<lambda>h. (sph_entry h, sph_uuid h)) ` set (pool_hdl_hash s)"
    by simp
  have char: "linked_hdls t = snd ` {x \<in> (\<lambda>h. (sph_entry h, sph_uuid h)) ` set (pool_hdl_hash t). fst x}" for t
    by (auto simp: linked_hdls_def image_iff) force
  show "?l = ?r" unfolding char using eq by simp
qed


lemma linked_hdls_cong:
  "pool_hdl_hash s' = pool_hdl_hash s \<Longrightarrow> linked_hdls s' = linked_hdls s"
  by (simp add: linked_hdls_def)

lemma linked_hdls_free_at:
  "linked_hdls (s\<lparr>pool_hdl_hash := free_at p (pool_hdl_hash s)\<rparr>) \<subseteq> linked_hdls s"
  using set_free_at [of p "pool_hdl_hash s"] by (auto simp: linked_hdls_def)

lemma linked_hdls_unlink:
  "linked_hdls (s\<lparr>pool_hdl_hash := (pool_hdl_hash s)[p := (pool_hdl_hash s ! p)\<lparr>sph_entry := False\<rparr>]\<rparr>)
     \<subseteq> linked_hdls s"
  by (auto simp: linked_hdls_def dest!: set_update_subset_insert [THEN subsetD])

lemma pool_hdl_rec_free_linked:
  assumes "pool_hdl_rec_free p s = Some s'"
  shows "linked_hdls s' \<subseteq> linked_hdls s"
proof -
  from assms obtain s1 where put: "ds_pool_put (sph_pool (pool_hdl_hash s ! p)) s = Some s1"
    and s': "s' = s1\<lparr>pool_hdl_hash := free_at p (pool_hdl_hash s1)\<rparr>"
    by (auto simp: pool_hdl_rec_free_def Let_def split: if_splits option.splits)
  have "linked_hdls s' \<subseteq> linked_hdls s1" unfolding s' by (rule linked_hdls_free_at)
  also have "linked_hdls s1 = linked_hdls s"
    using ds_pool_put_hdls [OF put] by (rule linked_hdls_cong)
  finally show ?thesis .
qed

lemma dhash_rec_decref_linked:
  assumes "dhash_rec_decref p s = Some s'"
  shows "linked_hdls s' \<subseteq> linked_hdls s"
proof -
  let ?s1 = "s\<lparr>pool_hdl_hash := (pool_hdl_hash s)
                [p := (pool_hdl_hash s ! p)\<lparr>sph_ref := sph_ref (pool_hdl_hash s ! p) - 1\<rparr>]\<rparr>"
  from assms have p: "p < length (pool_hdl_hash s)"
    by (auto simp: dhash_rec_decref_def pool_hdl_rec_decref_def split: if_splits)
  then have eq: "linked_hdls ?s1 = linked_hdls s" by (rule linked_hdls_update_ref)
  from assms p have "s' = ?s1 \<or> pool_hdl_rec_free p ?s1 = Some s'"
    by (auto simp: dhash_rec_decref_def pool_hdl_rec_decref_def Let_def split: if_splits)
  then show ?thesis
    using eq pool_hdl_rec_free_linked [of p ?s1 s'] by auto
qed

lemma pool_hdl_delete_linked:
  assumes "pool_hdl_delete hdl s = Some s'"
  shows "linked_hdls s' \<subseteq> linked_hdls s"
proof -
  from assms obtain p where
    "dhash_rec_decref p
       (s\<lparr>pool_hdl_hash := (pool_hdl_hash s)[p := (pool_hdl_hash s ! p)\<lparr>sph_entry := False\<rparr>]\<rparr>)
     = Some s'"
    by (auto simp: pool_hdl_delete_def dhash_rec_delete_def split: option.splits if_splits)
  from dhash_rec_decref_linked [OF this] linked_hdls_unlink [of s p]
  show ?thesis by blast
qed

lemma hdl_lookup_linked:
  "ds_pool_hdl_lookup key s = (q, s1) \<Longrightarrow> linked_hdls s1 = linked_hdls s"
proof (cases "hdl_index key s")
  case None
  assume "ds_pool_hdl_lookup key s = (q, s1)"
  with None show ?thesis by (simp add: hdl_lookup_None)
next
  case (Some p)
  assume "ds_pool_hdl_lookup key s = (q, s1)"
  moreover have "p < length (pool_hdl_hash s)"
    using Some by (auto simp: hdl_index_def dest: first_index_SomeD)
  ultimately show ?thesis
    using Some by (auto simp: hdl_lookup_Some pool_hdl_rec_addref_def linked_hdls_update_ref)
qed

lemma disconnect_loop_linked:
  "disconnect_loop hdl_uuids count i s = Some s' \<Longrightarrow> linked_hdls s' \<subseteq> linked_hdls s"
proof (induction hdl_uuids count i s rule: disconnect_loop.induct)
  case (1 hdl_uuids count i s)
  show ?case
  proof (cases "i < count")
    case False
    with "1.prems" show ?thesis by (simp add: disconnect_loop.simps [of hdl_uuids count i s])
  next
    case True
    note unfold = disconnect_loop.simps [of hdl_uuids count i s]
    from True "1.prems" have len: "\<not> length hdl_uuids \<le> i" and imax: "i \<noteq> INT_MAX"
      by (auto simp: unfold split: if_splits prod.splits option.splits)
    obtain q s1 where l: "ds_pool_hdl_lookup (hdl_uuids ! i) s = (q, s1)"
      by (cases "ds_pool_hdl_lookup (hdl_uuids ! i) s")
    note l1 = hdl_lookup_linked [OF l]
    show ?thesis
    proof (cases q)
      case None
      with "1.prems" True len imax l have "disconnect_loop hdl_uuids count (Suc i) s1 = Some s'"
        by (simp add: unfold)
      from "1.IH"(1) [OF True len l [symmetric] None imax this] l1 show ?thesis by simp
    next
      case (Some hdl)
      with "1.prems" True len imax l obtain s2 s3 where
        d: "pool_hdl_delete hdl s1 = Some s2"
        and nf: "\<not> length (pool_hdl_hash s2) < length (pool_hdl_hash s1)"
        and pt: "ds_pool_hdl_put hdl s2 = Some s3"
        and rest: "disconnect_loop hdl_uuids count (Suc i) s3 = Some s'"
        by (auto simp: unfold split: option.splits if_splits)
      from "1.IH"(2) [OF True len l [symmetric] Some d nf pt imax rest]
      have "linked_hdls s' \<subseteq> linked_hdls s3" .
      also have "\<dots> \<subseteq> linked_hdls s2"
        using pt by (auto simp: ds_pool_hdl_put_def dest: dhash_rec_decref_linked)
      also have "\<dots> \<subseteq> linked_hdls s1" using d by (rule pool_hdl_delete_linked)
      finally show ?thesis using l1 by simp
    qed
  qed
qed

lemma disconnect_loop_skip:
  assumes "i < count" "i < length hdl_uuids" "i \<noteq> INT_MAX" "hdl_index (hdl_uuids ! i) s = None"
  shows "disconnect_loop hdl_uuids count i s = disconnect_loop hdl_uuids count (Suc i) s"
  using assms by (subst disconnect_loop.simps) (simp add: hdl_lookup_None)

lemma disconnect_loop_all_absent:
  assumes "\<forall>key\<in>set hdl_uuids. hdl_index key s = None"
    and "count \<le> length hdl_uuids" "count \<le> INT_MAX"
  shows "disconnect_loop hdl_uuids count i s = Some s"
  using assms
proof (induction "count - i" arbitrary: i)
  case 0
  then show ?case by (subst disconnect_loop.simps) simp
next
  case (Suc n)
  then have i: "i < count" "i < length hdl_uuids" "i \<noteq> INT_MAX" by auto
  moreover from i Suc.prems have "hdl_index (hdl_uuids ! i) s = None" by simp
  ultimately have "disconnect_loop hdl_uuids count i s = disconnect_loop hdl_uuids count (Suc i) s"
    by (rule disconnect_loop_skip)
  also have "\<dots> = Some s"
    using Suc.hyps(2) by (intro Suc.hyps(1) Suc.prems) simp
  finally show ?case .
qed

text \<open>
  C7. In a disconnect request, a handle identifier that is not in the handle table is
  skipped: the loop goes on with the next identifier from the same state. It is not an
  error: whenever the handler gets through a list it replies with failure count 0,
  and an identifier that was not in the table before the request is not in it
  afterwards. A request all of whose identifiers are absent is answered with failure
  count 0 and leaves the state as it was.
\<close>

theorem disconnect_absent_handle_skipped:
  "(i < count \<and> i < length hdl_uuids \<and> i \<noteq> INT_MAX \<and> hdl_index (hdl_uuids ! i) s = None \<longrightarrow>
      disconnect_loop hdl_uuids count i s = disconnect_loop hdl_uuids count (Suc i) s)
   \<and> (da_arrays (tdi_hdls inp) = Some hdl_uuids
        \<and> ds_pool_tgt_disconnect_handler inp s = Some (out, rc, s') \<longrightarrow>
      tdo_rc out = 0 \<and> rc = 0 \<and> (\<forall>key. hdl_index key s = None \<longrightarrow> hdl_index key s' = None))
   \<and> (da_arrays (tdi_hdls inp) = Some hdl_uuids
        \<and> unat (da_count (tdi_hdls inp)) \<le> length hdl_uuids
        \<and> length hdl_uuids \<le> INT_MAX
        \<and> (\<forall>key\<in>set hdl_uuids. hdl_index key s = None) \<longrightarrow>
      ds_pool_tgt_disconnect_handler inp s = Some (\<lparr>tdo_rc = 0\<rparr>, 0, s))"
proof (intro conjI impI)
  assume "i < count \<and> i < length hdl_uuids \<and> i \<noteq> INT_MAX \<and> hdl_index (hdl_uuids ! i) s = None"
  then show "disconnect_loop hdl_uuids count i s = disconnect_loop hdl_uuids count (Suc i) s"
    by (simp add: disconnect_loop_skip)
next
  assume a: "da_arrays (tdi_hdls inp) = Some hdl_uuids
        \<and> ds_pool_tgt_disconnect_handler inp s = Some (out, rc, s')"
  then show "tdo_rc out = 0" "rc = 0"
    by (auto simp: ds_pool_tgt_disconnect_handler_def split: if_splits option.splits)
  from a have "s' = s \<or> disconnect_loop hdl_uuids (unat (da_count (tdi_hdls inp))) 0 s = Some s'"
    by (auto simp: ds_pool_tgt_disconnect_handler_def split: if_splits option.splits)
  then have "linked_hdls s' \<subseteq> linked_hdls s"
  proof
    assume "s' = s"
    then show ?thesis by simp
  next
    assume "disconnect_loop hdl_uuids (unat (da_count (tdi_hdls inp))) 0 s = Some s'"
    then show ?thesis by (rule disconnect_loop_linked)
  qed
  then show "\<forall>key. hdl_index key s = None \<longrightarrow> hdl_index key s' = None"
    by (auto simp: hdl_index_None_iff)
next
  assume a: "da_arrays (tdi_hdls inp) = Some hdl_uuids
        \<and> unat (da_count (tdi_hdls inp)) \<le> length hdl_uuids
        \<and> length hdl_uuids \<le> INT_MAX
        \<and> (\<forall>key\<in>set hdl_uuids. hdl_index key s = None)"
  then have "disconnect_loop hdl_uuids (unat (da_count (tdi_hdls inp))) 0 s = Some s"
    by (intro disconnect_loop_all_absent) auto
  with a show "ds_pool_tgt_disconnect_handler inp s = Some (\<lparr>tdo_rc = 0\<rparr>, 0, s)"
    by (simp add: ds_pool_tgt_disconnect_handler_def)
qed

theorem disconnect_absent_handle_skipped_witness:
  "hdl_index 5 st_connected = None
   \<and> disconnect_loop [5, 1] 2 0 st_connected = disconnect_loop [5, 1] 2 1 st_connected
   \<and> ds_pool_tgt_disconnect_handler disconnect_5_1 st_connected
       = Some (\<lparr>tdo_rc = 0\<rparr>, 0, st_disconnected)
   \<and> hdl_index 5 st_disconnected = None
   \<and> ds_pool_tgt_disconnect_handler disconnect_5_1 st_disconnected
       = Some (\<lparr>tdo_rc = 0\<rparr>, 0, st_disconnected)"
proof -
  have absent: "hdl_index 5 st_connected = None" "hdl_index 1 st_disconnected = None"
    "hdl_index 5 st_disconnected = None"
    by (simp_all add: example_defs hdl_defs)
  have run: "ds_pool_tgt_disconnect_handler disconnect_5_1 st_connected
       = Some (\<lparr>tdo_rc = 0\<rparr>, 0, st_disconnected)"
    by (simp add: ds_pool_tgt_disconnect_handler_def example_defs child_defs pool_defs hdl_defs
        const_defs Let_def word_sless_alt disconnect_loop.simps)
  show ?thesis
    using absent run
      disconnect_absent_handle_skipped
        [of 0 2 "[5, 1]" st_connected disconnect_5_1 "\<lparr>tdo_rc = 0\<rparr>" 0 st_disconnected]
      disconnect_absent_handle_skipped
        [of 0 2 "[5, 1]" st_disconnected disconnect_5_1 "\<lparr>tdo_rc = 0\<rparr>" 0 st_disconnected]
    by (simp add: INT_MAX_def disconnect_5_1_def)
qed

subsection \<open>Update of the map version\<close>

lemma pool_lookup_miss:
  "first_index (pool_cmp_keys uuid) (pool_cache s) = None \<Longrightarrow> ds_pool_lookup e uuid s = Some (None, s)"
  by (simp add: ds_pool_lookup_def ds_pool_lookup_create_def daos_lru_ref_hold_def
      pool_alloc_ref_def DER_NONEXIST_def)

text \<open>
  C5. An update request for a pool identifier that has no object in the pool cache
  fails with \<open>-DER_NONEXIST\<close>: the reply carries failure count 1, and the state is left
  as it was, so no stream's registry has been touched and no collective call has been
  made.
\<close>

theorem update_map_no_pool_nonexist:
  "first_index (pool_cmp_keys (tui_uuid inp)) (pool_cache s) = None \<longrightarrow>
     ds_pool_tgt_update_map_handler e inp s = Some (\<lparr>tuo_rc = 1\<rparr>, - DER_NONEXIST, s)"
  by (simp add: ds_pool_tgt_update_map_handler_def pool_lookup_miss DER_NONEXIST_def)

theorem update_map_no_pool_nonexist_witness:
  "first_index (pool_cmp_keys (tui_uuid update_7_9)) (pool_cache st_init) = None
   \<and> ds_pool_tgt_update_map_handler env_ok update_7_9 st_init
       = Some (\<lparr>tuo_rc = 1\<rparr>, - DER_NONEXIST, st_init)
   \<and> first_index (pool_cmp_keys (tui_uuid (update_7_9\<lparr>tui_uuid := 8\<rparr>))) (pool_cache st_connected)
       = None
   \<and> ds_pool_tgt_update_map_handler env_ok (update_7_9\<lparr>tui_uuid := 8\<rparr>) st_connected
       = Some (\<lparr>tuo_rc = 1\<rparr>, - DER_NONEXIST, st_connected)"
proof -
  have miss: "first_index (pool_cmp_keys (tui_uuid update_7_9)) (pool_cache st_init) = None"
    "first_index (pool_cmp_keys (tui_uuid (update_7_9\<lparr>tui_uuid := 8\<rparr>))) (pool_cache st_connected)
       = None"
    by (simp_all add: example_defs pool_cmp_keys_def)
  show ?thesis
    using miss update_map_no_pool_nonexist [of update_7_9 st_init env_ok]
      update_map_no_pool_nonexist [of "update_7_9\<lparr>tui_uuid := 8\<rparr>" st_connected env_ok]
    by simp
qed

subsection \<open>Update of the map version: a pool that is open\<close>

lemma child_lookup_None:
  "child_index uuid tls = None \<Longrightarrow> ds_pool_child_lookup uuid tls = (None, tls)"
  by (simp add: ds_pool_child_lookup_def)

lemma child_lookup_Some:
  "child_index uuid tls = Some i \<Longrightarrow>
     ds_pool_child_lookup uuid tls = (Some i, tls[i := (tls ! i)\<lparr>spc_ref := spc_ref (tls ! i) + 1\<rparr>])"
  by (simp add: ds_pool_child_lookup_def)

lemma update_child_found:
  assumes "child_index (tui_uuid inp) tls = Some i"
    and "0 <s spc_ref (tls ! i)" and "spc_ref (tls ! i) \<noteq> 0x7FFFFFFF"
  shows "update_child_map_version inp tid tls
           = Some (0, child_set_map_version (tui_uuid inp) (tui_map_version inp) tls)"
proof -
  have i: "i < length tls"
    using assms(1) by (auto simp: child_index_def dest: first_index_SomeD)
  show ?thesis
    using assms i ref_inc_pos [OF assms(2,3)] ref_pos_nonzero [OF assms(2)]
    by (simp add: update_child_map_version_def child_lookup_Some ds_pool_child_put_def
        child_set_map_version_def)
qed

lemma update_child_missing:
  "child_index (tui_uuid inp) tls = None \<Longrightarrow>
     update_child_map_version inp tid tls = Some (- DER_NONEXIST, tls)"
  by (simp add: update_child_map_version_def child_lookup_None)

lemma collective_from_all:
  assumes "\<forall>tls\<in>set tlss. \<forall>tid. f tid tls = Some (0, g tls)"
  shows "collective_from f tid tlss = Some (0, map g tlss)"
  using assms by (induction tlss arbitrary: tid) auto

lemma collective_from_zeroD:
  assumes "collective_from f tid tlss = Some (0, out)" and "i < length tlss"
  shows "\<exists>tls'. f (tid + i) (tlss ! i) = Some (0, tls')"
  using assms
proof (induction tlss arbitrary: tid out i)
  case Nil
  then show ?case by simp
next
  case (Cons tls tlss)
  from Cons.prems(1) obtain tls' out' where
    hd: "f tid tls = Some (0, tls')" and tl: "collective_from f (Suc tid) tlss = Some (0, out')"
    by (auto split: option.splits prod.splits if_splits)
  show ?case
  proof (cases i)
    case 0
    with hd show ?thesis by simp
  next
    case (Suc j)
    with Cons.prems(2) have "j < length tlss" by simp
    from Cons.IH [OF tl this] Suc show ?thesis by simp
  qed
qed

lemma pool_lookup_hit:
  assumes "first_index (pool_cmp_keys uuid) (pool_cache s) = Some p"
  shows "ds_pool_lookup e uuid s =
           Some (Some uuid,
                 s\<lparr>pool_cache := (pool_cache s)
                     [p := (pool_cache s ! p)\<lparr>sp_entry := sp_entry (pool_cache s ! p) + 1\<rparr>]\<rparr>)"
  using assms by (simp add: ds_pool_lookup_def ds_pool_lookup_create_def daos_lru_ref_hold_def)

text \<open>
  C6. An update request for a pool that has an object in the pool cache, held by at
  least one reference, on a node where every stream has a registry entry for the pool
  (with a positive reference count below \<open>INT_MAX\<close>): one collective call overwrites
  the cached map version of the entry of every stream, then the map version of the
  pool object is stored between taking and releasing its writer lock, and the reply
  carries failure count 0; nothing else changes. If some stream has no registry entry
  for the pool, the assertion on the result of the collective call fails: the outcome
  is fatal, there is no reply.
\<close>

theorem update_map_existing_pool:
  "(first_index (pool_cmp_keys (tui_uuid inp)) (pool_cache s) = Some p
      \<and> sp_entry (pool_cache s ! p) \<noteq> 0
      \<and> (\<forall>tls\<in>set (xstreams s). \<exists>i. child_index (tui_uuid inp) tls = Some i
             \<and> 0 <s spc_ref (tls ! i) \<and> spc_ref (tls ! i) \<noteq> 0x7FFFFFFF) \<longrightarrow>
    ds_pool_tgt_update_map_handler e inp s =
      Some (\<lparr>tuo_rc = 0\<rparr>, 0,
            s\<lparr>xstreams := map (child_set_map_version (tui_uuid inp) (tui_map_version inp))
                            (xstreams s),
              pool_cache := (pool_cache s)
                [p := (pool_cache s ! p)\<lparr>sp_map_version := tui_map_version inp\<rparr>],
              calls := calls s @
                [Collective_update_map_version (tui_uuid inp) (tui_map_version inp),
                 ABT_rwlock_wrlock (tui_uuid inp),
                 Store_sp_map_version (tui_uuid inp) (tui_map_version inp),
                 ABT_rwlock_unlock (tui_uuid inp)]\<rparr>))
   \<and> (first_index (pool_cmp_keys (tui_uuid inp)) (pool_cache s) = Some p
        \<and> (\<exists>tls\<in>set (xstreams s). child_index (tui_uuid inp) tls = None) \<longrightarrow>
      ds_pool_tgt_update_map_handler e inp s = None)"
proof (intro conjI impI)
  let ?uuid = "tui_uuid inp" and ?v = "tui_map_version inp"
  let ?s1 = "s\<lparr>pool_cache := (pool_cache s)
                     [p := (pool_cache s ! p)\<lparr>sp_entry := sp_entry (pool_cache s ! p) + 1\<rparr>]\<rparr>"
  assume a: "first_index (pool_cmp_keys ?uuid) (pool_cache s) = Some p
      \<and> sp_entry (pool_cache s ! p) \<noteq> 0
      \<and> (\<forall>tls\<in>set (xstreams s). \<exists>i. child_index ?uuid tls = Some i
             \<and> 0 <s spc_ref (tls ! i) \<and> spc_ref (tls ! i) \<noteq> 0x7FFFFFFF)"
  then have hit: "first_index (pool_cmp_keys ?uuid) (pool_cache s) = Some p" by simp
  then have p: "p < length (pool_cache s)" and key: "pool_cmp_keys ?uuid (pool_cache s ! p)"
    by (auto dest: first_index_SomeD)
  have idx: "first_index (pool_cmp_keys ?uuid) ((pool_cache s)[p := (pool_cache s ! p)\<lparr>sp_entry := r\<rparr>])
               = Some p" for r
    using p hit by (simp add: first_index_update_same pool_cmp_keys_def)
  have idx2: "first_index (pool_cmp_keys ?uuid)
                 ((pool_cache s)[p := (pool_cache s ! p)\<lparr>sp_entry := r, sp_map_version := w\<rparr>])
               = Some p" for r w
    using p hit by (simp add: first_index_update_same pool_cmp_keys_def)
  from a have "\<forall>tls\<in>set (xstreams s). \<forall>tid.
      update_child_map_version inp tid tls = Some (0, child_set_map_version ?uuid ?v tls)"
    by (auto simp: update_child_found)
  then have coll: "collective_from (update_child_map_version inp) 0 (xstreams s)
                     = Some (0, map (child_set_map_version ?uuid ?v) (xstreams s))"
    by (rule collective_from_all)
  from a have ne: "sp_entry (pool_cache s ! p) \<noteq> 0" by simp
  show "ds_pool_tgt_update_map_handler e inp s =
      Some (\<lparr>tuo_rc = 0\<rparr>, 0,
            s\<lparr>xstreams := map (child_set_map_version ?uuid ?v) (xstreams s),
              pool_cache := (pool_cache s)[p := (pool_cache s ! p)\<lparr>sp_map_version := ?v\<rparr>],
              calls := calls s @
                [Collective_update_map_version ?uuid ?v, ABT_rwlock_wrlock ?uuid,
                 Store_sp_map_version ?uuid ?v, ABT_rwlock_unlock ?uuid]\<rparr>)"
    using p ne
    by (simp add: ds_pool_tgt_update_map_handler_def pool_lookup_hit [OF hit] dss_collective_def
        coll store_sp_map_version_def idx idx2 log_call_def ds_pool_put_def
        daos_lru_ref_release_def Let_def)
next
  let ?uuid = "tui_uuid inp"
  let ?s1 = "s\<lparr>pool_cache := (pool_cache s)
                     [p := (pool_cache s ! p)\<lparr>sp_entry := sp_entry (pool_cache s ! p) + 1\<rparr>]\<rparr>"
  assume a: "first_index (pool_cmp_keys ?uuid) (pool_cache s) = Some p
        \<and> (\<exists>tls\<in>set (xstreams s). child_index ?uuid tls = None)"
  then have hit: "first_index (pool_cmp_keys ?uuid) (pool_cache s) = Some p" by simp
  from a obtain i where i: "i < length (xstreams s)" "child_index ?uuid (xstreams s ! i) = None"
    by (auto simp: in_set_conv_nth)
  have "collective_from (update_child_map_version inp) 0 (xstreams s) \<noteq> Some (0, out)" for out
  proof
    assume "collective_from (update_child_map_version inp) 0 (xstreams s) = Some (0, out)"
    from collective_from_zeroD [OF this i(1)] i(2) show False
      by (simp add: update_child_missing DER_NONEXIST_def)
  qed
  then have "dss_collective (update_child_map_version inp) ?s1 \<noteq> Some (0, s2)" for s2
    by (auto simp: dss_collective_def split: option.splits)
  then show "ds_pool_tgt_update_map_handler e inp s = None"
    by (auto simp: ds_pool_tgt_update_map_handler_def pool_lookup_hit [OF hit]
        split: option.splits)
qed

theorem update_map_existing_pool_witness:
  "first_index (pool_cmp_keys (tui_uuid update_7_9)) (pool_cache st_connected) = Some 0
   \<and> sp_entry (pool_cache st_connected ! 0) = 1
   \<and> length (xstreams st_connected) = 2
   \<and> child_index (tui_uuid update_7_9) (xstreams st_connected ! 0) = Some 0
   \<and> child_index (tui_uuid update_7_9) (xstreams st_connected ! 1) = Some 0
   \<and> spc_ref (xstreams st_connected ! 0 ! 0) = 1
   \<and> spc_ref (xstreams st_connected ! 1 ! 0) = 1
   \<and> ds_pool_tgt_update_map_handler env_ok update_7_9 st_connected
       = Some (\<lparr>tuo_rc = 0\<rparr>, 0, st_updated)
   \<and> child_index (tui_uuid update_7_9) [] = None
   \<and> ds_pool_tgt_update_map_handler env_ok update_7_9
        (st_connected\<lparr>xstreams := [xstreams st_connected ! 0, []]\<rparr>) = None"
proof -
  have facts: "first_index (pool_cmp_keys (tui_uuid update_7_9)) (pool_cache st_connected) = Some 0"
    "sp_entry (pool_cache st_connected ! 0) = 1"
    "length (xstreams st_connected) = 2"
    "child_index (tui_uuid update_7_9) (xstreams st_connected ! 0) = Some 0"
    "child_index (tui_uuid update_7_9) (xstreams st_connected ! 1) = Some 0"
    "spc_ref (xstreams st_connected ! 0 ! 0) = 1"
    "spc_ref (xstreams st_connected ! 1 ! 0) = 1"
    "child_index (tui_uuid update_7_9) [] = None"
    by (simp_all add: example_defs pool_cmp_keys_def child_index_def)
  have streams: "\<forall>tls\<in>set (xstreams st_connected). \<exists>i. child_index (tui_uuid update_7_9) tls = Some i
             \<and> 0 <s spc_ref (tls ! i) \<and> spc_ref (tls ! i) \<noteq> 0x7FFFFFFF"
    by (simp add: example_defs child_index_def word_sless_alt)
  have missing: "\<exists>tls\<in>set (xstreams (st_connected\<lparr>xstreams := [xstreams st_connected ! 0, []]\<rparr>)).
      child_index (tui_uuid update_7_9) tls = None"
    by (simp add: example_defs child_index_def)
  have result: "st_connected
       \<lparr>xstreams := map (child_set_map_version (tui_uuid update_7_9) (tui_map_version update_7_9))
                            (xstreams st_connected),
              pool_cache := (pool_cache st_connected)
                [0 := (pool_cache st_connected ! 0)\<lparr>sp_map_version := tui_map_version update_7_9\<rparr>],
              calls := calls st_connected @
                [Collective_update_map_version (tui_uuid update_7_9) (tui_map_version update_7_9),
                 ABT_rwlock_wrlock (tui_uuid update_7_9),
                 Store_sp_map_version (tui_uuid update_7_9) (tui_map_version update_7_9),
                 ABT_rwlock_unlock (tui_uuid update_7_9)]\<rparr> = st_updated"
    by (simp add: example_defs child_set_map_version_def child_index_def)
  show ?thesis
    using facts streams missing
      update_map_existing_pool [of update_7_9 st_connected 0 env_ok]
      update_map_existing_pool
        [of update_7_9 "st_connected\<lparr>xstreams := [xstreams st_connected ! 0, []]\<rparr>" 0 env_ok]
    by (simp add: result)
qed

subsection \<open>Creation of a pool object\<close>

lemma child_add_one_new:
  assumes "child_index (pla_uuid arg) tls = None"
    and "pool_child_add_one e arg tid tls = Some (0, tls')"
  shows "tls' = \<lparr>spc_list = True, spc_hdl = vos_pool_open_hdl e tid, spc_uuid = pla_uuid arg,
                 spc_map_version = pla_map_version arg, spc_ref = 1\<rparr> # tls"
  using assms
  by (auto simp: pool_child_add_one_def child_lookup_None DER_NOMEM_def split: if_splits)

lemma child_add_one_ok:
  assumes "child_index (pla_uuid arg) tls = None"
    and "\<not> nomem_child e tid" "tgt_file_rc e tid = 0" "vos_pool_open_rc e tid = 0"
  shows "\<exists>tls'. pool_child_add_one e arg tid tls = Some (0, tls')"
  using assms by (simp add: pool_child_add_one_def child_lookup_None)

lemma child_delete_one_new:
  "pool_child_delete_one uuid tid
     (\<lparr>spc_list = True, spc_hdl = h, spc_uuid = uuid, spc_map_version = v, spc_ref = 1\<rparr> # tls)
   = Some (0, tls)"
  by (simp add: pool_child_delete_one_def ds_pool_child_lookup_def child_index_def
      ds_pool_child_put_def free_at_def word_sless_alt)

lemma collective_add_delete:
  assumes "collective_from (pool_child_add_one e arg) tid tlss = Some (0, mid)"
    and "\<forall>tls\<in>set tlss. child_index (pla_uuid arg) tls = None"
  shows "collective_from (pool_child_delete_one (pla_uuid arg)) tid' mid = Some (0, tlss)"
  using assms
proof (induction tlss arbitrary: tid tid' mid)
  case Nil
  then show ?case by simp
next
  case (Cons tls tlss)
  from Cons.prems(1) obtain tls' rest where
    hd: "pool_child_add_one e arg tid tls = Some (0, tls')"
    and tl: "collective_from (pool_child_add_one e arg) (Suc tid) tlss = Some (0, rest)"
    and mid: "mid = tls' # rest"
    by (auto split: option.splits prod.splits if_splits)
  from Cons.prems(2) have none: "child_index (pla_uuid arg) tls = None" by simp
  from Cons.prems(2) have "\<forall>tls\<in>set tlss. child_index (pla_uuid arg) tls = None" by simp
  from Cons.IH [OF tl this]
  have "collective_from (pool_child_delete_one (pla_uuid arg)) (Suc tid') rest = Some (0, tlss)" .
  then show ?case
    unfolding mid child_add_one_new [OF none hd]
    by (simp add: child_delete_one_new)
qed

lemma collective_add_ok:
  assumes "\<forall>tls\<in>set tlss. child_index (pla_uuid arg) tls = None"
    and "\<forall>i<length tlss. \<not> nomem_child e (tid + i) \<and> tgt_file_rc e (tid + i) = 0
           \<and> vos_pool_open_rc e (tid + i) = 0"
  shows "\<exists>mid. collective_from (pool_child_add_one e arg) tid tlss = Some (0, mid)"
  using assms
proof (induction tlss arbitrary: tid)
  case Nil
  then show ?case by simp
next
  case (Cons tls tlss)
  from Cons.prems(2) have "\<not> nomem_child e tid \<and> tgt_file_rc e tid = 0 \<and> vos_pool_open_rc e tid = 0"
    by force
  with Cons.prems(1) obtain tls' where hd: "pool_child_add_one e arg tid tls = Some (0, tls')"
    using child_add_one_ok [of arg tls e tid] by auto
  have "\<forall>i<length tlss. \<not> nomem_child e (Suc tid + i) \<and> tgt_file_rc e (Suc tid + i) = 0
           \<and> vos_pool_open_rc e (Suc tid + i) = 0"
  proof (intro allI impI)
    fix i assume "i < length tlss"
    then have "Suc i < length (tls # tlss)" by simp
    from Cons.prems(2) [rule_format, OF this] show "\<not> nomem_child e (Suc tid + i)
      \<and> tgt_file_rc e (Suc tid + i) = 0 \<and> vos_pool_open_rc e (Suc tid + i) = 0"
      by simp
  qed
  with Cons.IH [of "Suc tid"] Cons.prems(1) obtain rest where
    "collective_from (pool_child_add_one e arg) (Suc tid) tlss = Some (0, rest)"
    by auto
  with hd show ?case by simp
qed

text \<open>The group stage fails after the registry entries have been created.\<close>

lemma pool_alloc_ref_group_stage:
  assumes "\<not> nomem_pool e" "rwlock_create_rc e = ABT_SUCCESS"
    and "pca_map_buf arg \<noteq> None \<longrightarrow> pool_map_create_rc e = 0"
    and add: "collective_from
                (pool_child_add_one e \<lparr>pla_uuid = key, pla_map_version = pca_map_version arg\<rparr>)
                0 (xstreams s) = Some (0, mid)"
    and del: "collective_from (pool_child_delete_one key) 0 mid = Some (0, tlss)"
    and "pca_create_group arg" "pca_map_buf arg \<noteq> None" "group_create_rc e \<noteq> 0"
  shows "pool_alloc_ref e key (Some arg) s =
           Some (group_create_rc e, None,
                 s\<lparr>xstreams := tlss,
                   calls := calls s @
                     [D_ALLOC_pool key, ABT_rwlock_create key, Pool_map_create key,
                      Collective_child_add key, Collective_child_delete key,
                      Pool_map_destroy key, ABT_rwlock_free key, D_FREE_pool key]\<rparr>)"
  using assms
  by (auto simp: pool_alloc_ref_def Let_def dss_collective_def log_call_def err_collective_def
      err_lock_def err_pool_def)

text \<open>The four ways in which \<open>pool_alloc_ref\<close> returns an error.\<close>

lemma pool_alloc_ref_failure_cases:
  assumes "pool_alloc_ref e key varg s = Some (rc, link, s')" and "rc \<noteq> 0"
  shows "link = None \<and>
    (s' = s
     \<or> s' = s\<lparr>calls := calls s @ [D_ALLOC_pool key, D_FREE_pool key]\<rparr>
     \<or> s' = s\<lparr>calls := calls s @ [D_ALLOC_pool key, ABT_rwlock_create key,
                                    ABT_rwlock_free key, D_FREE_pool key]\<rparr>
     \<or> (\<exists>arg mid tlss. varg = Some arg
          \<and> collective_from
               (pool_child_add_one e \<lparr>pla_uuid = key, pla_map_version = pca_map_version arg\<rparr>)
               0 (xstreams s) = Some (0, mid)
          \<and> collective_from (pool_child_delete_one key) 0 mid = Some (0, tlss)
          \<and> s' = s\<lparr>xstreams := tlss,
                    calls := calls s @
                      [D_ALLOC_pool key, ABT_rwlock_create key, Pool_map_create key,
                       Collective_child_add key, Collective_child_delete key,
                       Pool_map_destroy key, ABT_rwlock_free key, D_FREE_pool key]\<rparr>))"
proof (cases varg)
  case None
  with assms show ?thesis by (simp add: pool_alloc_ref_def)
next
  case (Some arg)
  show ?thesis
  proof (cases "nomem_pool e")
    case True
    with assms Some show ?thesis by (simp add: pool_alloc_ref_def)
  next
    case nomem: False
    show ?thesis
    proof (cases "rwlock_create_rc e \<noteq> ABT_SUCCESS")
      case True
      with assms Some nomem show ?thesis
        by (auto simp: pool_alloc_ref_def Let_def err_pool_def log_call_def)
    next
      case lock: False
      show ?thesis
      proof (cases "pca_map_buf arg \<noteq> None \<and> pool_map_create_rc e \<noteq> 0")
        case True
        with assms Some nomem lock show ?thesis
          by (auto simp: pool_alloc_ref_def Let_def err_pool_def err_lock_def log_call_def)
      next
        case map: False
        let ?add = "pool_child_add_one e \<lparr>pla_uuid = key, pla_map_version = pca_map_version arg\<rparr>"
        let ?s3 = "if pca_map_buf arg \<noteq> None
                   then s\<lparr>calls := calls s @ [D_ALLOC_pool key, ABT_rwlock_create key,
                                                 Pool_map_create key]\<rparr>
                   else s\<lparr>calls := calls s @ [D_ALLOC_pool key, ABT_rwlock_create key]\<rparr>"
        from assms Some nomem lock map obtain mid where
          add: "collective_from ?add 0 (xstreams s) = Some (0, mid)"
          and grp: "pca_create_group arg" "pca_map_buf arg \<noteq> None" "group_create_rc e \<noteq> 0"
          by (auto simp: pool_alloc_ref_def Let_def dss_collective_def log_call_def
              split: option.splits if_splits)
        from assms Some nomem lock map add grp obtain tlss where
          del: "collective_from (pool_child_delete_one key) 0 mid = Some (0, tlss)"
          by (auto simp: pool_alloc_ref_def Let_def dss_collective_def log_call_def
              err_collective_def split: option.splits if_splits)
        from map grp have "pca_map_buf arg \<noteq> None \<longrightarrow> pool_map_create_rc e = 0" by simp
        from pool_alloc_ref_group_stage [OF nomem _ this add del grp] lock assms(1) Some
        have res: "link = None"
          "s' = s\<lparr>xstreams := tlss,
                    calls := calls s @
                      [D_ALLOC_pool key, ABT_rwlock_create key, Pool_map_create key,
                       Collective_child_add key, Collective_child_delete key,
                       Pool_map_destroy key, ABT_rwlock_free key, D_FREE_pool key]\<rparr>"
          by simp_all
        from Some add del res(2) have "\<exists>arg mid tlss. varg = Some arg
          \<and> collective_from
               (pool_child_add_one e \<lparr>pla_uuid = key, pla_map_version = pca_map_version arg\<rparr>)
               0 (xstreams s) = Some (0, mid)
          \<and> collective_from (pool_child_delete_one key) 0 mid = Some (0, tlss)
          \<and> s' = s\<lparr>xstreams := tlss,
                    calls := calls s @
                      [D_ALLOC_pool key, ABT_rwlock_create key, Pool_map_create key,
                       Collective_child_add key, Collective_child_delete key,
                       Pool_map_destroy key, ABT_rwlock_free key, D_FREE_pool key]\<rparr>"
          by blast
        with res(1) show ?thesis by blast
      qed
    qed
  qed
qed


text \<open>
  C4. When a stage of \<open>pool_alloc_ref\<close> fails, what has been acquired up to that stage
  is released in the reverse order of its acquisition, the error of the stage is
  returned, and no pool object is handed out.
  \<^item> The lock cannot be created: the object is freed.
  \<^item> The map cannot be parsed: the lock is freed, then the object.
  \<^item> The group cannot be created (every stream has created its registry entry
    before, which presupposes that none had one and that its storage could be
    opened): the registry entries are removed again by a second collective call, the
    map is destroyed, the lock is freed, then the object; the registries are as they
    were.
  In general, whenever \<open>pool_alloc_ref\<close> returns an error, it returns no object, the
  cache and the handle table are as before, and the calls it has made are some
  acquisitions followed by their releases in reverse order. A group never needs
  undoing: its creation is the last stage. A failure of the collective creation
  itself is not a return but a failed assertion.
\<close>

theorem pool_alloc_ref_unwinds:
  "(\<not> nomem_pool e \<and> rwlock_create_rc e \<noteq> ABT_SUCCESS \<longrightarrow>
      pool_alloc_ref e key (Some arg) s =
        Some (dss_abterr2der e (rwlock_create_rc e), None,
              s\<lparr>calls := calls s @ [D_ALLOC_pool key, D_FREE_pool key]\<rparr>))
   \<and> (\<not> nomem_pool e \<and> rwlock_create_rc e = ABT_SUCCESS
        \<and> pca_map_buf arg \<noteq> None \<and> pool_map_create_rc e \<noteq> 0 \<longrightarrow>
      pool_alloc_ref e key (Some arg) s =
        Some (pool_map_create_rc e, None,
              s\<lparr>calls := calls s @ [D_ALLOC_pool key, ABT_rwlock_create key,
                                     ABT_rwlock_free key, D_FREE_pool key]\<rparr>))
   \<and> (\<not> nomem_pool e \<and> rwlock_create_rc e = ABT_SUCCESS
        \<and> pca_map_buf arg \<noteq> None \<and> pool_map_create_rc e = 0
        \<and> (\<forall>tls\<in>set (xstreams s). child_index key tls = None)
        \<and> (\<forall>tid<length (xstreams s). \<not> nomem_child e tid \<and> tgt_file_rc e tid = 0
              \<and> vos_pool_open_rc e tid = 0)
        \<and> pca_create_group arg \<and> group_create_rc e \<noteq> 0 \<longrightarrow>
      pool_alloc_ref e key (Some arg) s =
        Some (group_create_rc e, None,
              s\<lparr>calls := calls s @
                  [D_ALLOC_pool key, ABT_rwlock_create key, Pool_map_create key,
                   Collective_child_add key, Collective_child_delete key,
                   Pool_map_destroy key, ABT_rwlock_free key, D_FREE_pool key]\<rparr>))
   \<and> (pool_alloc_ref e key varg s = Some (rc, link, s') \<and> rc \<noteq> 0 \<longrightarrow>
      link = None \<and> pool_cache s' = pool_cache s \<and> pool_hdl_hash s' = pool_hdl_hash s
      \<and> (\<exists>acquired. calls s' = calls s @ acquired @ map release_of (rev acquired))
      \<and> ((\<forall>tls\<in>set (xstreams s). child_index key tls = None) \<longrightarrow> xstreams s' = xstreams s))"
proof (intro conjI impI)
  assume "\<not> nomem_pool e \<and> rwlock_create_rc e \<noteq> ABT_SUCCESS"
  then show "pool_alloc_ref e key (Some arg) s =
        Some (dss_abterr2der e (rwlock_create_rc e), None,
              s\<lparr>calls := calls s @ [D_ALLOC_pool key, D_FREE_pool key]\<rparr>)"
    by (simp add: pool_alloc_ref_def Let_def err_pool_def log_call_def)
next
  assume "\<not> nomem_pool e \<and> rwlock_create_rc e = ABT_SUCCESS
        \<and> pca_map_buf arg \<noteq> None \<and> pool_map_create_rc e \<noteq> 0"
  then show "pool_alloc_ref e key (Some arg) s =
        Some (pool_map_create_rc e, None,
              s\<lparr>calls := calls s @ [D_ALLOC_pool key, ABT_rwlock_create key,
                                     ABT_rwlock_free key, D_FREE_pool key]\<rparr>)"
    by (simp add: pool_alloc_ref_def Let_def err_pool_def err_lock_def log_call_def)
next
  let ?arg = "\<lparr>pla_uuid = key, pla_map_version = pca_map_version arg\<rparr>"
  assume a: "\<not> nomem_pool e \<and> rwlock_create_rc e = ABT_SUCCESS
        \<and> pca_map_buf arg \<noteq> None \<and> pool_map_create_rc e = 0
        \<and> (\<forall>tls\<in>set (xstreams s). child_index key tls = None)
        \<and> (\<forall>tid<length (xstreams s). \<not> nomem_child e tid \<and> tgt_file_rc e tid = 0
              \<and> vos_pool_open_rc e tid = 0)
        \<and> pca_create_group arg \<and> group_create_rc e \<noteq> 0"
  then have none: "\<forall>tls\<in>set (xstreams s). child_index (pla_uuid ?arg) tls = None" by simp
  from a have "\<forall>i<length (xstreams s). \<not> nomem_child e (0 + i) \<and> tgt_file_rc e (0 + i) = 0
           \<and> vos_pool_open_rc e (0 + i) = 0" by simp
  from collective_add_ok [OF none this] obtain mid where
    add: "collective_from (pool_child_add_one e ?arg) 0 (xstreams s) = Some (0, mid)" by blast
  from collective_add_delete [OF add none]
  have del: "collective_from (pool_child_delete_one key) 0 mid = Some (0, xstreams s)" by simp
  from a have "\<not> nomem_pool e" "rwlock_create_rc e = ABT_SUCCESS"
    "pca_map_buf arg \<noteq> None \<longrightarrow> pool_map_create_rc e = 0"
    "pca_create_group arg" "pca_map_buf arg \<noteq> None" "group_create_rc e \<noteq> 0" by simp_all
  from pool_alloc_ref_group_stage [OF this(1,2,3) add del this(4,5,6)]
  show "pool_alloc_ref e key (Some arg) s =
        Some (group_create_rc e, None,
              s\<lparr>calls := calls s @
                  [D_ALLOC_pool key, ABT_rwlock_create key, Pool_map_create key,
                   Collective_child_add key, Collective_child_delete key,
                   Pool_map_destroy key, ABT_rwlock_free key, D_FREE_pool key]\<rparr>)"
    by simp
next
  assume a: "pool_alloc_ref e key varg s = Some (rc, link, s') \<and> rc \<noteq> 0"
  then have r: "pool_alloc_ref e key varg s = Some (rc, link, s')" and nz: "rc \<noteq> 0" by simp_all
  note cases = pool_alloc_ref_failure_cases [OF r nz]
  from cases show "link = None" by simp
  from pool_alloc_ref_frame [OF r]
  show "pool_cache s' = pool_cache s" "pool_hdl_hash s' = pool_hdl_hash s" by simp_all
  from cases consider
      "calls s' = calls s @ [] @ map release_of (rev [])"
    | "calls s' = calls s @ [D_ALLOC_pool key] @ map release_of (rev [D_ALLOC_pool key])"
    | "calls s' = calls s @ [D_ALLOC_pool key, ABT_rwlock_create key]
         @ map release_of (rev [D_ALLOC_pool key, ABT_rwlock_create key])"
    | "calls s' = calls s @ [D_ALLOC_pool key, ABT_rwlock_create key, Pool_map_create key,
                             Collective_child_add key]
         @ map release_of (rev [D_ALLOC_pool key, ABT_rwlock_create key, Pool_map_create key,
                                Collective_child_add key])"
    by auto
  then show "\<exists>acquired. calls s' = calls s @ acquired @ map release_of (rev acquired)"
    by cases blast+
  show "xstreams s' = xstreams s" if none: "\<forall>tls\<in>set (xstreams s). child_index key tls = None"
    using cases
  proof (elim conjE disjE exE)
    fix arg mid tlss
    assume add: "collective_from
           (pool_child_add_one e \<lparr>pla_uuid = key, pla_map_version = pca_map_version arg\<rparr>)
           0 (xstreams s) = Some (0, mid)"
      and del: "collective_from (pool_child_delete_one key) 0 mid = Some (0, tlss)"
      and s': "s' = s\<lparr>xstreams := tlss,
                    calls := calls s @
                      [D_ALLOC_pool key, ABT_rwlock_create key, Pool_map_create key,
                       Collective_child_add key, Collective_child_delete key,
                       Pool_map_destroy key, ABT_rwlock_free key, D_FREE_pool key]\<rparr>"
    from none have "\<forall>tls\<in>set (xstreams s).
        child_index (pla_uuid \<lparr>pla_uuid = key, pla_map_version = pca_map_version arg\<rparr>) tls = None"
      by simp
    from collective_add_delete [OF add this, of 0] del s' show ?thesis by simp
  qed simp_all
qed

theorem pool_alloc_ref_unwinds_witness:
  "pool_alloc_ref (env_ok\<lparr>rwlock_create_rc := 12\<rparr>) 7 (Some create_arg_group) st_init
     = Some (- DER_NOMEM, None, st_init\<lparr>calls := [D_ALLOC_pool 7, D_FREE_pool 7]\<rparr>)
   \<and> pool_alloc_ref (env_ok\<lparr>pool_map_create_rc := - 5\<rparr>) 7 (Some create_arg_group) st_init
     = Some (- 5, None,
             st_init\<lparr>calls := [D_ALLOC_pool 7, ABT_rwlock_create 7, ABT_rwlock_free 7,
                                D_FREE_pool 7]\<rparr>)
   \<and> pool_alloc_ref (env_ok\<lparr>group_create_rc := - 7\<rparr>) 7 (Some create_arg_group) st_init
     = Some (- 7, None,
             st_init\<lparr>calls := [D_ALLOC_pool 7, ABT_rwlock_create 7, Pool_map_create 7,
                                Collective_child_add 7, Collective_child_delete 7,
                                Pool_map_destroy 7, ABT_rwlock_free 7, D_FREE_pool 7]\<rparr>)
   \<and> xstreams (st_init\<lparr>calls := [D_ALLOC_pool 7, ABT_rwlock_create 7, Pool_map_create 7,
                                Collective_child_add 7, Collective_child_delete 7,
                                Pool_map_destroy 7, ABT_rwlock_free 7, D_FREE_pool 7]\<rparr>)
       = xstreams st_init
   \<and> (\<exists>acquired.
         [D_ALLOC_pool 7, ABT_rwlock_create 7, Pool_map_create 7, Collective_child_add 7,
          Collective_child_delete 7, Pool_map_destroy 7, ABT_rwlock_free 7, D_FREE_pool 7]
         = acquired @ map release_of (rev acquired))"
proof -
  let ?el = "env_ok\<lparr>rwlock_create_rc := 12\<rparr>"
  let ?em = "env_ok\<lparr>pool_map_create_rc := - 5\<rparr>"
  let ?eg = "env_ok\<lparr>group_create_rc := - 7\<rparr>"
  let ?sg = "st_init\<lparr>calls := [D_ALLOC_pool 7, ABT_rwlock_create 7, Pool_map_create 7,
                                Collective_child_add 7, Collective_child_delete 7,
                                Pool_map_destroy 7, ABT_rwlock_free 7, D_FREE_pool 7]\<rparr>"
  have lock: "\<not> nomem_pool ?el \<and> rwlock_create_rc ?el \<noteq> ABT_SUCCESS"
    by (simp add: env_ok_def ABT_SUCCESS_def)
  have map: "\<not> nomem_pool ?em \<and> rwlock_create_rc ?em = ABT_SUCCESS
        \<and> pca_map_buf create_arg_group \<noteq> None \<and> pool_map_create_rc ?em \<noteq> 0"
    by (simp add: env_ok_def ABT_SUCCESS_def create_arg_group_def)
  have grp: "\<not> nomem_pool ?eg \<and> rwlock_create_rc ?eg = ABT_SUCCESS
        \<and> pca_map_buf create_arg_group \<noteq> None \<and> pool_map_create_rc ?eg = 0
        \<and> (\<forall>tls\<in>set (xstreams st_init). child_index 7 tls = None)
        \<and> (\<forall>tid<length (xstreams st_init). \<not> nomem_child ?eg tid \<and> tgt_file_rc ?eg tid = 0
              \<and> vos_pool_open_rc ?eg tid = 0)
        \<and> pca_create_group create_arg_group \<and> group_create_rc ?eg \<noteq> 0"
    by (simp add: env_ok_def ABT_SUCCESS_def create_arg_group_def st_init_def child_index_def)
  have none: "\<forall>tls\<in>set (xstreams st_init). child_index 7 tls = None"
    by (simp add: st_init_def child_index_def)
  note l = pool_alloc_ref_unwinds [of ?el 7 create_arg_group st_init]
  note m = pool_alloc_ref_unwinds [of ?em 7 create_arg_group st_init]
  note g = pool_alloc_ref_unwinds
      [of ?eg 7 create_arg_group st_init "Some create_arg_group" "- 7" None ?sg]
  from l lock have 1: "pool_alloc_ref ?el 7 (Some create_arg_group) st_init
     = Some (- DER_NOMEM, None, st_init\<lparr>calls := [D_ALLOC_pool 7, D_FREE_pool 7]\<rparr>)"
    by (simp add: env_ok_def st_init_def)
  from m map have 2: "pool_alloc_ref ?em 7 (Some create_arg_group) st_init
     = Some (- 5, None,
             st_init\<lparr>calls := [D_ALLOC_pool 7, ABT_rwlock_create 7, ABT_rwlock_free 7,
                                D_FREE_pool 7]\<rparr>)"
    by (simp add: env_ok_def st_init_def)
  from g grp have 3: "pool_alloc_ref ?eg 7 (Some create_arg_group) st_init = Some (- 7, None, ?sg)"
    by (simp add: env_ok_def st_init_def)
  from g 3 none have 4: "xstreams ?sg = xstreams st_init"
    "\<exists>acquired. calls ?sg = calls st_init @ acquired @ map release_of (rev acquired)"
    by simp_all
  from 4(2) have 5: "\<exists>acquired.
         [D_ALLOC_pool 7, ABT_rwlock_create 7, Pool_map_create 7, Collective_child_add 7,
          Collective_child_delete 7, Pool_map_destroy 7, ABT_rwlock_free 7, D_FREE_pool 7]
         = acquired @ map release_of (rev acquired)"
    by (simp add: st_init_def)
  from 1 2 3 4(1) 5 show ?thesis by blast
qed

subsection \<open>Aggregators\<close>

text \<open>
  C3. Each of the three aggregators adds the failure count of the source reply to that
  of the result reply: for counts \<open>a\<close> and \<open>b\<close> the merged reply carries \<open>a + b\<close>, the
  32-bit sum of the C \<open>+=\<close>, which is the sum of the two integers whenever that sum fits
  into an \<open>int\<close>. Folding any number of replies that all carry 0 leaves 0.
\<close>

theorem aggregators_add_failure_counts:
  "tco_rc (ds_pool_tgt_connect_aggregator src1 res1) = tco_rc res1 + tco_rc src1
   \<and> tdo_rc (ds_pool_tgt_disconnect_aggregator src2 res2) = tdo_rc res2 + tdo_rc src2
   \<and> tuo_rc (ds_pool_tgt_update_map_aggregator src3 res3) = tuo_rc res3 + tuo_rc src3
   \<and> (0 \<le> sint (tco_rc res1) \<and> 0 \<le> sint (tco_rc src1)
        \<and> sint (tco_rc res1) + sint (tco_rc src1) < 2 ^ 31 \<longrightarrow>
      sint (tco_rc (ds_pool_tgt_connect_aggregator src1 res1))
        = sint (tco_rc res1) + sint (tco_rc src1))
   \<and> (0 \<le> sint (tdo_rc res2) \<and> 0 \<le> sint (tdo_rc src2)
        \<and> sint (tdo_rc res2) + sint (tdo_rc src2) < 2 ^ 31 \<longrightarrow>
      sint (tdo_rc (ds_pool_tgt_disconnect_aggregator src2 res2))
        = sint (tdo_rc res2) + sint (tdo_rc src2))
   \<and> (0 \<le> sint (tuo_rc res3) \<and> 0 \<le> sint (tuo_rc src3)
        \<and> sint (tuo_rc res3) + sint (tuo_rc src3) < 2 ^ 31 \<longrightarrow>
      sint (tuo_rc (ds_pool_tgt_update_map_aggregator src3 res3))
        = sint (tuo_rc res3) + sint (tuo_rc src3))
   \<and> ((\<forall>r\<in>set (r1 # rs1). tco_rc r = 0) \<longrightarrow>
        tco_rc (fold ds_pool_tgt_connect_aggregator rs1 r1) = 0)
   \<and> ((\<forall>r\<in>set (r2 # rs2). tdo_rc r = 0) \<longrightarrow>
        tdo_rc (fold ds_pool_tgt_disconnect_aggregator rs2 r2) = 0)
   \<and> ((\<forall>r\<in>set (r3 # rs3). tuo_rc r = 0) \<longrightarrow>
        tuo_rc (fold ds_pool_tgt_update_map_aggregator rs3 r3) = 0)"
proof -
  have a1: "tco_rc (ds_pool_tgt_connect_aggregator src1 res1) = tco_rc res1 + tco_rc src1"
    by (simp add: ds_pool_tgt_connect_aggregator_def)
  have a2: "tdo_rc (ds_pool_tgt_disconnect_aggregator src2 res2) = tdo_rc res2 + tdo_rc src2"
    by (simp add: ds_pool_tgt_disconnect_aggregator_def)
  have a3: "tuo_rc (ds_pool_tgt_update_map_aggregator src3 res3) = tuo_rc res3 + tuo_rc src3"
    by (simp add: ds_pool_tgt_update_map_aggregator_def)
  have f1: "tco_rc (fold ds_pool_tgt_connect_aggregator rs1 r1) = 0"
    if "\<forall>r\<in>set (r1 # rs1). tco_rc r = 0"
    using that by (simp add: fold_connect_aggregator sum_list_all_zero)
  have f2: "tdo_rc (fold ds_pool_tgt_disconnect_aggregator rs2 r2) = 0"
    if "\<forall>r\<in>set (r2 # rs2). tdo_rc r = 0"
    using that by (simp add: fold_disconnect_aggregator sum_list_all_zero)
  have f3: "tuo_rc (fold ds_pool_tgt_update_map_aggregator rs3 r3) = 0"
    if "\<forall>r\<in>set (r3 # rs3). tuo_rc r = 0"
    using that by (simp add: fold_update_map_aggregator sum_list_all_zero)
  show ?thesis
    using f1 f2 f3 by (simp only: a1 a2 a3) (simp add: sint_add_no_overflow)
qed

theorem aggregators_add_failure_counts_witness:
  "tco_rc (ds_pool_tgt_connect_aggregator \<lparr>tco_rc = 2\<rparr> \<lparr>tco_rc = 3\<rparr>) = 5
   \<and> sint (tco_rc (ds_pool_tgt_connect_aggregator \<lparr>tco_rc = 2\<rparr> \<lparr>tco_rc = 3\<rparr>)) = 5
   \<and> sint (tdo_rc (ds_pool_tgt_disconnect_aggregator \<lparr>tdo_rc = 1\<rparr> \<lparr>tdo_rc = 0\<rparr>)) = 1
   \<and> sint (tuo_rc (ds_pool_tgt_update_map_aggregator \<lparr>tuo_rc = 1\<rparr> \<lparr>tuo_rc = 1\<rparr>)) = 2
   \<and> tco_rc (fold ds_pool_tgt_connect_aggregator [\<lparr>tco_rc = 0\<rparr>, \<lparr>tco_rc = 0\<rparr>] \<lparr>tco_rc = 0\<rparr>) = 0
   \<and> tdo_rc (fold ds_pool_tgt_disconnect_aggregator [\<lparr>tdo_rc = 0\<rparr>, \<lparr>tdo_rc = 0\<rparr>] \<lparr>tdo_rc = 0\<rparr>) = 0
   \<and> tuo_rc (fold ds_pool_tgt_update_map_aggregator [\<lparr>tuo_rc = 0\<rparr>, \<lparr>tuo_rc = 0\<rparr>] \<lparr>tuo_rc = 0\<rparr>) = 0"
  using aggregators_add_failure_counts
    [of "\<lparr>tco_rc = 2\<rparr>" "\<lparr>tco_rc = 3\<rparr>" "\<lparr>tdo_rc = 1\<rparr>" "\<lparr>tdo_rc = 0\<rparr>"
        "\<lparr>tuo_rc = 1\<rparr>" "\<lparr>tuo_rc = 1\<rparr>"
        "\<lparr>tco_rc = 0\<rparr>" "[\<lparr>tco_rc = 0\<rparr>, \<lparr>tco_rc = 0\<rparr>]"
        "\<lparr>tdo_rc = 0\<rparr>" "[\<lparr>tdo_rc = 0\<rparr>, \<lparr>tdo_rc = 0\<rparr>]"
        "\<lparr>tuo_rc = 0\<rparr>" "[\<lparr>tuo_rc = 0\<rparr>, \<lparr>tuo_rc = 0\<rparr>]"]
  by simp

subsection \<open>The failure count of a reply\<close>

lemma connect_reply:
  "ds_pool_tgt_connect_handler e inp s = Some (out, rc, s') \<Longrightarrow>
     tco_rc out = (if rc = 0 then 0 else 1)"
  by (auto simp: ds_pool_tgt_connect_handler_def Let_def
      split: prod.splits option.splits if_splits)

lemma disconnect_reply:
  "ds_pool_tgt_disconnect_handler inp s = Some (out, rc, s') \<Longrightarrow>
     tdo_rc out = (if rc = 0 then 0 else 1)"
  by (auto simp: ds_pool_tgt_disconnect_handler_def Let_def
      split: prod.splits option.splits if_splits)

lemma update_map_reply:
  "ds_pool_tgt_update_map_handler e inp s = Some (out, rc, s') \<Longrightarrow>
     tuo_rc out = (if rc = 0 then 0 else 1)"
  by (auto simp: ds_pool_tgt_update_map_handler_def Let_def
      split: prod.splits option.splits if_splits)

lemma fold_bound:
  fixes c :: "32 word" and cs :: "32 word list"
  assumes "\<forall>x\<in>set (c # cs). x = 0 \<or> x = 1" and "length (c # cs) < 2 ^ 31"
  shows "0 \<le> sint (c + sum_list cs) \<and> sint (c + sum_list cs) \<le> int (length (c # cs))"
  using failure_count_bound [OF assms] by simp

text \<open>
  C10. Every reply that the connect, the disconnect or the update handler sends
  carries failure count 0 if the internal code \<open>rc\<close> is 0 and failure count 1 for every
  other value of \<open>rc\<close>. Hence the count aggregated over \<open>N\<close> such replies lies between 0
  and \<open>N\<close>, for every number of replies that an \<open>int\<close> can count (\<open>N < 2 ^ 31\<close>).
\<close>

theorem replies_carry_zero_or_one:
  "(ds_pool_tgt_connect_handler e1 inp1 s1 = Some (out1, rc1, t1) \<longrightarrow>
      tco_rc out1 = (if rc1 = 0 then 0 else 1))
   \<and> (ds_pool_tgt_disconnect_handler inp2 s2 = Some (out2, rc2, t2) \<longrightarrow>
      tdo_rc out2 = (if rc2 = 0 then 0 else 1))
   \<and> (ds_pool_tgt_update_map_handler e3 inp3 s3 = Some (out3, rc3, t3) \<longrightarrow>
      tuo_rc out3 = (if rc3 = 0 then 0 else 1))
   \<and> ((\<forall>r\<in>set (r1 # rs1). tco_rc r = 0 \<or> tco_rc r = 1) \<and> length (r1 # rs1) < 2 ^ 31 \<longrightarrow>
      0 \<le> sint (tco_rc (fold ds_pool_tgt_connect_aggregator rs1 r1))
      \<and> sint (tco_rc (fold ds_pool_tgt_connect_aggregator rs1 r1)) \<le> int (length (r1 # rs1)))
   \<and> ((\<forall>r\<in>set (r2 # rs2). tdo_rc r = 0 \<or> tdo_rc r = 1) \<and> length (r2 # rs2) < 2 ^ 31 \<longrightarrow>
      0 \<le> sint (tdo_rc (fold ds_pool_tgt_disconnect_aggregator rs2 r2))
      \<and> sint (tdo_rc (fold ds_pool_tgt_disconnect_aggregator rs2 r2)) \<le> int (length (r2 # rs2)))
   \<and> ((\<forall>r\<in>set (r3 # rs3). tuo_rc r = 0 \<or> tuo_rc r = 1) \<and> length (r3 # rs3) < 2 ^ 31 \<longrightarrow>
      0 \<le> sint (tuo_rc (fold ds_pool_tgt_update_map_aggregator rs3 r3))
      \<and> sint (tuo_rc (fold ds_pool_tgt_update_map_aggregator rs3 r3)) \<le> int (length (r3 # rs3)))"
proof (intro conjI impI)
  assume "ds_pool_tgt_connect_handler e1 inp1 s1 = Some (out1, rc1, t1)"
  then show "tco_rc out1 = (if rc1 = 0 then 0 else 1)" by (rule connect_reply)
next
  assume "ds_pool_tgt_disconnect_handler inp2 s2 = Some (out2, rc2, t2)"
  then show "tdo_rc out2 = (if rc2 = 0 then 0 else 1)" by (rule disconnect_reply)
next
  assume "ds_pool_tgt_update_map_handler e3 inp3 s3 = Some (out3, rc3, t3)"
  then show "tuo_rc out3 = (if rc3 = 0 then 0 else 1)" by (rule update_map_reply)
next
  assume a: "(\<forall>r\<in>set (r1 # rs1). tco_rc r = 0 \<or> tco_rc r = 1) \<and> length (r1 # rs1) < 2 ^ 31"
  then have "\<forall>x\<in>set (tco_rc r1 # map tco_rc rs1). x = 0 \<or> x = 1"
    "length (tco_rc r1 # map tco_rc rs1) < 2 ^ 31" by auto
  from fold_bound [OF this]
  show "0 \<le> sint (tco_rc (fold ds_pool_tgt_connect_aggregator rs1 r1))"
    "sint (tco_rc (fold ds_pool_tgt_connect_aggregator rs1 r1)) \<le> int (length (r1 # rs1))"
    by (simp_all add: fold_connect_aggregator)
next
  assume a: "(\<forall>r\<in>set (r2 # rs2). tdo_rc r = 0 \<or> tdo_rc r = 1) \<and> length (r2 # rs2) < 2 ^ 31"
  then have "\<forall>x\<in>set (tdo_rc r2 # map tdo_rc rs2). x = 0 \<or> x = 1"
    "length (tdo_rc r2 # map tdo_rc rs2) < 2 ^ 31" by auto
  from fold_bound [OF this]
  show "0 \<le> sint (tdo_rc (fold ds_pool_tgt_disconnect_aggregator rs2 r2))"
    "sint (tdo_rc (fold ds_pool_tgt_disconnect_aggregator rs2 r2)) \<le> int (length (r2 # rs2))"
    by (simp_all add: fold_disconnect_aggregator)
next
  assume a: "(\<forall>r\<in>set (r3 # rs3). tuo_rc r = 0 \<or> tuo_rc r = 1) \<and> length (r3 # rs3) < 2 ^ 31"
  then have "\<forall>x\<in>set (tuo_rc r3 # map tuo_rc rs3). x = 0 \<or> x = 1"
    "length (tuo_rc r3 # map tuo_rc rs3) < 2 ^ 31" by auto
  from fold_bound [OF this]
  show "0 \<le> sint (tuo_rc (fold ds_pool_tgt_update_map_aggregator rs3 r3))"
    "sint (tuo_rc (fold ds_pool_tgt_update_map_aggregator rs3 r3)) \<le> int (length (r3 # rs3))"
    by (simp_all add: fold_update_map_aggregator)
qed

theorem replies_carry_zero_or_one_witness:
  "ds_pool_tgt_connect_handler env_ok connect_7_1 st_init = Some (\<lparr>tco_rc = 0\<rparr>, 0, st_connected)
   \<and> ds_pool_tgt_connect_handler (env_ok\<lparr>nomem_hdl := True\<rparr>) connect_7_1 st_init
       = Some (\<lparr>tco_rc = 1\<rparr>, - DER_NOMEM, st_init)
   \<and> ds_pool_tgt_disconnect_handler disconnect_5_1 st_connected
       = Some (\<lparr>tdo_rc = 0\<rparr>, 0, st_disconnected)
   \<and> ds_pool_tgt_update_map_handler env_ok update_7_9 st_init
       = Some (\<lparr>tuo_rc = 1\<rparr>, - DER_NONEXIST, st_init)
   \<and> sint (tco_rc (fold ds_pool_tgt_connect_aggregator
                     [\<lparr>tco_rc = 0\<rparr>, \<lparr>tco_rc = 1\<rparr>] \<lparr>tco_rc = 1\<rparr>)) = 2
   \<and> 0 \<le> sint (tdo_rc (fold ds_pool_tgt_disconnect_aggregator
                     [\<lparr>tdo_rc = 0\<rparr>, \<lparr>tdo_rc = 1\<rparr>] \<lparr>tdo_rc = 1\<rparr>))
   \<and> sint (tuo_rc (fold ds_pool_tgt_update_map_aggregator
                     [\<lparr>tuo_rc = 0\<rparr>, \<lparr>tuo_rc = 1\<rparr>] \<lparr>tuo_rc = 1\<rparr>)) \<le> 3"
proof -
  have c0: "ds_pool_tgt_connect_handler env_ok connect_7_1 st_init
              = Some (\<lparr>tco_rc = 0\<rparr>, 0, st_connected)"
    by (simp add: ds_pool_tgt_connect_handler_def example_defs child_defs pool_defs hdl_defs
        const_defs Let_def)
  have c1: "\<exists>out. ds_pool_tgt_connect_handler (env_ok\<lparr>nomem_hdl := True\<rparr>) connect_7_1 st_init
              = Some (out, - DER_NOMEM, st_init)"
    by (simp add: ds_pool_tgt_connect_handler_def example_defs hdl_defs Let_def)
  have d: "\<exists>out. ds_pool_tgt_disconnect_handler disconnect_5_1 st_connected
              = Some (out, 0, st_disconnected)"
    by (simp add: ds_pool_tgt_disconnect_handler_def example_defs child_defs pool_defs hdl_defs
        const_defs Let_def word_sless_alt disconnect_loop.simps)
  have u: "\<exists>out. ds_pool_tgt_update_map_handler env_ok update_7_9 st_init
              = Some (out, - DER_NONEXIST, st_init)"
    by (simp add: ds_pool_tgt_update_map_handler_def example_defs pool_defs const_defs Let_def)
  from c1 obtain o1 where c1': "ds_pool_tgt_connect_handler (env_ok\<lparr>nomem_hdl := True\<rparr>)
      connect_7_1 st_init = Some (o1, - DER_NOMEM, st_init)" by blast
  from d obtain o2 where d': "ds_pool_tgt_disconnect_handler disconnect_5_1 st_connected
              = Some (o2, 0, st_disconnected)" by blast
  from u obtain o3 where u': "ds_pool_tgt_update_map_handler env_ok update_7_9 st_init
              = Some (o3, - DER_NONEXIST, st_init)" by blast
  note w = replies_carry_zero_or_one
      [of "env_ok\<lparr>nomem_hdl := True\<rparr>" connect_7_1 st_init o1 "- DER_NOMEM" st_init
          disconnect_5_1 st_connected o2 0 st_disconnected
          env_ok update_7_9 st_init o3 "- DER_NONEXIST" st_init
          "\<lparr>tco_rc = 1\<rparr>" "[\<lparr>tco_rc = 0\<rparr>, \<lparr>tco_rc = 1\<rparr>]"
          "\<lparr>tdo_rc = 1\<rparr>" "[\<lparr>tdo_rc = 0\<rparr>, \<lparr>tdo_rc = 1\<rparr>]"
          "\<lparr>tuo_rc = 1\<rparr>" "[\<lparr>tuo_rc = 0\<rparr>, \<lparr>tuo_rc = 1\<rparr>]"]
  from w c1' have r1: "o1 = \<lparr>tco_rc = 1\<rparr>" by (cases o1) (simp add: DER_NOMEM_def)
  from w d' have r2: "o2 = \<lparr>tdo_rc = 0\<rparr>" by (cases o2) simp
  from w u' have r3: "o3 = \<lparr>tuo_rc = 1\<rparr>" by (cases o3) (simp add: DER_NONEXIST_def)
  have s: "sint (tco_rc (fold ds_pool_tgt_connect_aggregator
                     [\<lparr>tco_rc = 0\<rparr>, \<lparr>tco_rc = 1\<rparr>] \<lparr>tco_rc = 1\<rparr>)) = 2"
    by (simp add: ds_pool_tgt_connect_aggregator_def)
  from w have b: "0 \<le> sint (tdo_rc (fold ds_pool_tgt_disconnect_aggregator
                     [\<lparr>tdo_rc = 0\<rparr>, \<lparr>tdo_rc = 1\<rparr>] \<lparr>tdo_rc = 1\<rparr>))"
    "sint (tuo_rc (fold ds_pool_tgt_update_map_aggregator
                     [\<lparr>tuo_rc = 0\<rparr>, \<lparr>tuo_rc = 1\<rparr>] \<lparr>tuo_rc = 1\<rparr>)) \<le> 3"
    by simp_all
  from c0 c1' d' u' r1 r2 r3 s b show ?thesis by simp
qed

end
